theory Spec2Isabelle
  imports Main "HOL-Library.Word"
begin

section \<open>The conduit pipeline: data model\<close>

text \<open>
  A shallow embedding of \<^verbatim>\<open>conduit/pipeline/pipeline.go\<close>: the metadata store
  (\<^verbatim>\<open>encodeMetadataToFile\<close>, \<^verbatim>\<open>initializeOrLoadBlockMetadata\<close>), \<^verbatim>\<open>Init\<close>
  and the round loop of \<^verbatim>\<open>Start\<close>.

  Go's \<^verbatim>\<open>uint64\<close> is a 64-bit word: \<open>+\<close> wraps, \<open><\<close> compares unsigned.
  A \<^verbatim>\<open>time.Duration\<close> is a number of nanoseconds, an \<open>int\<close> here.
\<close>

type_synonym uint64 = "64 word"

text \<open>The calls into \<^verbatim>\<open>os\<close> and \<^verbatim>\<open>encoding/json\<close> that can fail.\<close>

datatype fs_op = Stat | Remove | Create | Encode | Rename | ReadFile | Unmarshal

text \<open>
  Go errors. \<open>Errorf msg e\<close> is \<^verbatim>\<open>fmt.Errorf(msg + ": %w", e)\<close>; \<open>ErrNotExist\<close> is
  \<^verbatim>\<open>os.ErrNotExist\<close>; \<open>OsError\<close> is any other failure of the named call;
  \<open>PluginError\<close> is an error returned by a plugin.
\<close>

datatype error =
    PluginError string
  | ErrNotExist
  | OsError fs_op
  | GenesisMismatch string string
  | Errorf string error

text \<open>\<^verbatim>\<open>type state struct\<close>: the pipeline metadata.\<close>

record state =
  GenesisHash :: string
  Network :: string
  NextRound :: uint64

text \<open>
  \<^verbatim>\<open>data.BlockData\<close>: the pipeline reads only \<^verbatim>\<open>Round()\<close> and the transaction
  type of each entry of \<^verbatim>\<open>Payset\<close>.
\<close>

record BlockData =
  Round :: uint64
  Payset :: "string list"

text \<open>
  The fields of \<^verbatim>\<open>Config\<close> the modelled functions read; \<open>NextRoundOverride\<close> is
  \<^verbatim>\<open>cfg.ConduitArgs.NextRoundOverride\<close>.
\<close>

record Config =
  CPUProfile :: string
  PIDFilePath :: string
  RetryCount :: uint64
  RetryDelay :: int
  NextRoundOverride :: uint64

text \<open>
  What the importer's \<^verbatim>\<open>Init\<close> returns: \<open>HashBase64\<close> is
  \<^verbatim>\<open>base64.StdEncoding.EncodeToString(gh[:])\<close> of \<^verbatim>\<open>genesis.Hash()\<close>,
  \<open>GenesisNetwork\<close> is \<^verbatim>\<open>genesis.Network\<close>.
\<close>

record Genesis =
  HashBase64 :: string
  GenesisNetwork :: string

subsection \<open>The metadata file\<close>

text \<open>
  The bytes of a file, as \<^verbatim>\<open>os.Stat\<close> and \<^verbatim>\<open>json.Unmarshal\<close> see them: of size
  zero; or bytes that \<^verbatim>\<open>json.Unmarshal\<close> accepts for a \<^verbatim>\<open>state\<close> (\<open>Document\<close>); or
  bytes that it rejects (\<open>Malformed\<close>). In both cases the three arguments are the values
  that the call stores in the fields \<^verbatim>\<open>genesis-hash\<close>, \<^verbatim>\<open>network\<close> and
  \<^verbatim>\<open>next-round\<close>, \<open>None\<close> for a field it does not store: an accepted JSON object
  stores the fields it has; rejected bytes that are not JSON at all store nothing, and a JSON
  object rejected for a value of the wrong type still stores its other fields.
\<close>

datatype contents =
    Zero_length
  | Malformed "string option" "string option" "uint64 option"
  | Document "string option" "string option" "uint64 option"

text \<open>\<^verbatim>\<open>metadata.json\<close> and \<^verbatim>\<open>metadata.json.temp\<close> in the data directory; \<open>None\<close>: no such file.\<close>

record filesystem =
  metadata_json :: "contents option"
  metadata_json_temp :: "contents option"

text \<open>
  How \<^verbatim>\<open>encoding/json\<close> writes a Go string, which is any sequence of bytes: a byte that
  does not begin a well-formed UTF-8 sequence is written as the escape of U+FFFD, all else is written
  so that it reads back as it was. \<open>rune_size s\<close> is the length of the well-formed UTF-8
  sequence at the head of \<open>s\<close> (the size that \<^verbatim>\<open>utf8.DecodeRuneInString\<close> returns for a
  valid rune), and 0 when there is none.
\<close>

definition in_range :: "nat \<Rightarrow> nat \<Rightarrow> char \<Rightarrow> bool" where
  "in_range lo hi c = (lo \<le> (of_char c :: nat) \<and> (of_char c :: nat) \<le> hi)"

fun rune_size :: "string \<Rightarrow> nat" where
  "rune_size [] = 0"
| "rune_size (c # cs) =
     (let b = (of_char c :: nat) in
      if b < 128 then 1
      else if 194 \<le> b \<and> b \<le> 223 then
        (case cs of
           c1 # _ \<Rightarrow> if in_range 128 191 c1 then 2 else 0
         | _ \<Rightarrow> 0)
      else if 224 \<le> b \<and> b \<le> 239 then
        (case cs of
           c1 # c2 # _ \<Rightarrow>
             if in_range (if b = 224 then 160 else 128) (if b = 237 then 159 else 191) c1 \<and>
                in_range 128 191 c2
             then 3 else 0
         | _ \<Rightarrow> 0)
      else if 240 \<le> b \<and> b \<le> 244 then
        (case cs of
           c1 # c2 # c3 # _ \<Rightarrow>
             if in_range (if b = 240 then 144 else 128) (if b = 244 then 143 else 191) c1 \<and>
                in_range 128 191 c2 \<and> in_range 128 191 c3
             then 4 else 0
         | _ \<Rightarrow> 0)
      else 0)"

text \<open>
  The string that comes back from the JSON written for the string \<open>s\<close>: every byte that
  does not begin a well-formed sequence has become U+FFFD, the bytes EF BF BD.
\<close>

function json_string :: "string \<Rightarrow> string" where
  "json_string [] = []"
| "json_string (c # cs) =
     (if rune_size (c # cs) = 0 then [CHR 0xEF, CHR 0xBF, CHR 0xBD] @ json_string cs
      else take (rune_size (c # cs)) (c # cs) @ json_string (drop (rune_size (c # cs) - 1) cs))"
  by pat_completeness auto
termination
  by (relation "measure length") auto

text \<open>
  \<^verbatim>\<open>json.NewEncoder(file).Encode(p.pipelineMetadata)\<close>: all three fields are written, the
  strings as \<^verbatim>\<open>encoding/json\<close> writes them.
\<close>

definition json_Encode :: "state \<Rightarrow> contents" where
  "json_Encode st =
     Document (Some (json_string (GenesisHash st))) (Some (json_string (Network st)))
       (Some (NextRound st))"

text \<open>What storing the fields \<open>gh\<close>, \<open>nw\<close> and \<open>nr\<close> makes of the struct \<open>st\<close>.\<close>

definition store_fields :: "string option \<Rightarrow> string option \<Rightarrow> uint64 option \<Rightarrow> state \<Rightarrow> state" where
  "store_fields gh nw nr st =
     \<lparr> GenesisHash = (case gh of None \<Rightarrow> GenesisHash st | Some h \<Rightarrow> h),
       Network = (case nw of None \<Rightarrow> Network st | Some n \<Rightarrow> n),
       NextRound = (case nr of None \<Rightarrow> NextRound st | Some r \<Rightarrow> r) \<rparr>"

text \<open>
  \<^verbatim>\<open>json.Unmarshal(data, &p.pipelineMetadata)\<close>: the error, and the struct afterwards. A
  field that is stored overwrites the field of the struct, every other field of the struct
  stays as it was, also when the call fails.
\<close>

fun json_Unmarshal :: "contents \<Rightarrow> state \<Rightarrow> error option \<times> state" where
  "json_Unmarshal Zero_length st = (Some (OsError Unmarshal), st)"
| "json_Unmarshal (Malformed gh nw nr) st = (Some (OsError Unmarshal), store_fields gh nw nr st)"
| "json_Unmarshal (Document gh nw nr) st = (None, store_fields gh nw nr st)"

text \<open>
  \<^verbatim>\<open>encodeMetadataToFile\<close>. \<open>F\<close> is the set of calls that fail during this call.
  \<^verbatim>\<open>os.Create\<close> leaves an empty temp file, \<^verbatim>\<open>Encode\<close> fills it, \<^verbatim>\<open>os.Rename\<close>
  replaces \<^verbatim>\<open>metadata.json\<close> by it.
\<close>

definition encodeMetadataToFile :: "fs_op set \<Rightarrow> state \<Rightarrow> filesystem \<Rightarrow> error option \<times> filesystem" where
  "encodeMetadataToFile F st d =
     (if Create \<in> F
      then (Some (Errorf ''encodeMetadataToFile(): failed to create temp metadata file'' (OsError Create)), d)
      else let d1 = d\<lparr>metadata_json_temp := Some Zero_length\<rparr> in
        if Encode \<in> F
        then (Some (Errorf ''encodeMetadataToFile(): failed to write temp metadata'' (OsError Encode)), d1)
        else let d2 = d1\<lparr>metadata_json_temp := Some (json_Encode st)\<rparr> in
          if Rename \<in> F
          then (Some (Errorf ''encodeMetadataToFile(): failed to replace metadata file'' (OsError Rename)), d2)
          else (None, d2\<lparr>metadata_json := metadata_json_temp d2, metadata_json_temp := None\<rparr>))"

text \<open>
  \<^verbatim>\<open>os.Stat(pipelineMetadataFilePath)\<close>: \<open>Inr f\<close> is a non-nil \<^verbatim>\<open>stat\<close> of the file
  \<open>f\<close>, \<open>Inl e\<close> a nil \<^verbatim>\<open>stat\<close> with the error \<open>e\<close>.
\<close>

definition os_Stat :: "fs_op set \<Rightarrow> filesystem \<Rightarrow> error + contents" where
  "os_Stat F d =
     (if Stat \<in> F then Inl (OsError Stat)
      else case metadata_json d of None \<Rightarrow> Inl ErrNotExist | Some f \<Rightarrow> Inr f)"

text \<open>
  \<^verbatim>\<open>initializeOrLoadBlockMetadata\<close>, on the in-memory record \<open>st\<close>
  (\<^verbatim>\<open>p.pipelineMetadata\<close>). It returns the record, the error and the files.
\<close>

definition initializeOrLoadBlockMetadata ::
    "fs_op set \<Rightarrow> state \<Rightarrow> filesystem \<Rightarrow> state \<times> error option \<times> filesystem" where
  "initializeOrLoadBlockMetadata F st d =
     (let stat = os_Stat F d in
      if stat = Inl ErrNotExist \<or> stat = Inr Zero_length
      then
        (if stat = Inr Zero_length \<and> Remove \<in> F
         then (st, Some (Errorf ''Init(): error creating file'' (OsError Remove)), d)
         else let d1 = (if stat = Inr Zero_length then d\<lparr>metadata_json := None\<rparr> else d) in
           case encodeMetadataToFile F st d1 of
             (Some e, d2) \<Rightarrow> (st, Some (Errorf ''Init(): error creating file'' e), d2)
           | (None, d2) \<Rightarrow> (st, None, d2))
      else
        (case stat of
           Inl e \<Rightarrow> (st, Some (Errorf ''error opening file'' e), d)
         | Inr f \<Rightarrow>
             if ReadFile \<in> F
             then (st, Some (Errorf ''error reading metadata'' (OsError ReadFile)), d)
             else (case json_Unmarshal f st of
                     (Some e, st') \<Rightarrow> (st', Some (Errorf ''error reading metadata'' e), d)
                   | (None, st') \<Rightarrow> (st', None, d))))"

section \<open>The plugins and the rest of the environment\<close>

datatype plugin = ImporterPlugin | ProcessorPlugin nat | ExporterPlugin

text \<open>
  What the pipeline calls and does not define. A round loop iteration calls each plugin
  method at most once, so the result of a call is a function of the number of the
  iteration and of the arguments. \<open>ctxDone t\<close>: \<^verbatim>\<open>p.ctx.Done()\<close> is closed at time
  \<open>t\<close>. \<open>faults n\<close>: the file operations that fail in iteration \<open>n\<close>. The other
  fields are the results of the calls \<^verbatim>\<open>Init\<close> makes.
\<close>

record env =
  GetBlock :: "nat \<Rightarrow> uint64 \<Rightarrow> error + BlockData"
  processors :: "(nat \<Rightarrow> BlockData \<Rightarrow> error + BlockData) list"
  Receive :: "nat \<Rightarrow> BlockData \<Rightarrow> error option"
  completeCallback :: "(nat \<Rightarrow> BlockData \<Rightarrow> error option) list"
  ctxDone :: "int \<Rightarrow> bool"
  faults :: "nat \<Rightarrow> fs_op set"
  CreateCPUProfile :: "error option"
  CreateIndexerPidFile :: "error option"
  yaml_Marshal :: "plugin \<Rightarrow> error option"
  ImporterInit :: "error + Genesis"
  PluginInit :: "plugin \<Rightarrow> error option"
  init_faults :: "fs_op set"

text \<open>
  The effects of the round loop outside the pipeline's own fields, in the order they
  happen: observations of the Prometheus metrics, calls of the plugins, the sleep, log
  lines and replacements of \<^verbatim>\<open>metadata.json\<close>.
\<close>

datatype event =
    RetryCountObserved uint64
  | Slept int
  | GetBlockCalled uint64
  | ImporterTimeObserved
  | ProcessCalled nat
  | ProcessorTimeObserved nat
  | ReceiveCalled BlockData
  | RoundExported uint64
  | MetadataWritten uint64
  | OnCompleteCalled nat
  | ExporterTimeObserved
  | BlockImportTimeObserved
  | ImportedTxnsPerBlockObserved nat
  | ImportedRoundGaugeSet uint64
  | ImportedTxnsSet string nat
  | ErrorLogged error
  | RetryExceededLogged uint64

text \<open>
  \<^verbatim>\<open>pipelineImpl\<close>: the fields the modelled functions read and write. The plugins and
  the completion callbacks are in \<open>env\<close>.
\<close>

record pipelineImpl =
  cfg :: Config
  err :: "error option"
  pipelineMetadata :: state

text \<open>
  The pipeline together with its surroundings: the local \<open>retry\<close> of \<^verbatim>\<open>Start\<close>, the
  number of loop iterations begun, a clock (which only \<^verbatim>\<open>time.Sleep\<close> advances: the
  time spent in plugin calls is not modelled), the two files and the effects so far.
\<close>

record machine = pipelineImpl +
  retry :: uint64
  iteration :: nat
  now :: int
  disk :: filesystem
  trace :: "event list"

definition emit :: "event list \<Rightarrow> machine \<Rightarrow> machine" where
  "emit evs m = m\<lparr>trace := trace m @ evs\<rparr>"

section \<open>Init\<close>

text \<open>The loop over \<^verbatim>\<open>p.processors\<close> in \<^verbatim>\<open>Init\<close>, from index \<open>idx\<close> on.\<close>

fun init_processors :: "env \<Rightarrow> nat \<Rightarrow> 'a list \<Rightarrow> error option" where
  "init_processors e idx [] = None"
| "init_processors e idx (proc # rest) =
     (case yaml_Marshal e (ProcessorPlugin idx) of
        Some x \<Rightarrow> Some (Errorf ''Pipeline.Start(): could not serialize Processors[idx].Args '' x)
      | None \<Rightarrow>
          (case PluginInit e (ProcessorPlugin idx) of
             Some x \<Rightarrow> Some (Errorf ''Pipeline.Init(): could not initialize processor'' x)
           | None \<Rightarrow> init_processors e (Suc idx) rest))"

text \<open>
  \<^verbatim>\<open>Init\<close>. Logging, the metrics prefix and registration, and the start of the metrics
  server do not change the control flow and are left out; every \<^verbatim>\<open>return\<close> is a branch.
\<close>

definition Init :: "env \<Rightarrow> machine \<Rightarrow> error option \<times> machine" where
  "Init e p =
     (if CPUProfile (cfg p) \<noteq> [] \<and> CreateCPUProfile e \<noteq> None then (CreateCPUProfile e, p)
      else if PIDFilePath (cfg p) \<noteq> [] \<and> CreateIndexerPidFile e \<noteq> None then (CreateIndexerPidFile e, p)
      else case yaml_Marshal e ImporterPlugin of
        Some x \<Rightarrow> (Some (Errorf ''Pipeline.Start(): could not serialize Importer.Args'' x), p)
      | None \<Rightarrow>
      (case ImporterInit e of
        Inl x \<Rightarrow> (Some (Errorf ''Pipeline.Start(): could not initialize importer'' x), p)
      | Inr genesis \<Rightarrow>
          let ghbase64 = HashBase64 genesis;
              p1 = p\<lparr>pipelineMetadata :=
                     (pipelineMetadata p)\<lparr>GenesisHash := ghbase64, Network := GenesisNetwork genesis\<rparr>\<rparr>
          in case initializeOrLoadBlockMetadata (init_faults e) (pipelineMetadata p1) (disk p1) of
            (st, Some x, d) \<Rightarrow>
              (Some (Errorf ''Pipeline.Start(): could not read metadata'' x),
               p1\<lparr>pipelineMetadata := st, disk := d\<rparr>)
          | (st, None, d) \<Rightarrow>
              let p2 = p1\<lparr>pipelineMetadata := st, disk := d\<rparr> in
              if GenesisHash (pipelineMetadata p2) \<noteq> ghbase64
              then (Some (GenesisMismatch ghbase64 (GenesisHash (pipelineMetadata p2))), p2)
              else
                let p3 = (if NextRoundOverride (cfg p2) > 0
                          then p2\<lparr>pipelineMetadata :=
                                 (pipelineMetadata p2)\<lparr>NextRound := NextRoundOverride (cfg p2)\<rparr>\<rparr>
                          else p2)
                in case init_processors e 0 (processors e) of
                  Some x \<Rightarrow> (Some x, p3)
                | None \<Rightarrow>
                    (case yaml_Marshal e ExporterPlugin of
                       Some x \<Rightarrow> (Some (Errorf ''Pipeline.Start(): could not serialize Exporter.Args '' x), p3)
                     | None \<Rightarrow>
                         (case PluginInit e ExporterPlugin of
                            Some x \<Rightarrow> (Some (Errorf ''Pipeline.Start(): could not initialize Exporter'' x), p3)
                          | None \<Rightarrow> (None, p3)))))"

section \<open>The round loop of Start\<close>

text \<open>
  The loop over \<^verbatim>\<open>p.processors\<close> in iteration \<open>n\<close>, from index \<open>i\<close> on: the block or
  the first error, and the effects.
\<close>

fun run_processors ::
    "nat \<Rightarrow> nat \<Rightarrow> (nat \<Rightarrow> BlockData \<Rightarrow> error + BlockData) list \<Rightarrow> BlockData \<Rightarrow>
     (error + BlockData) \<times> event list" where
  "run_processors n i [] blk = (Inr blk, [])"
| "run_processors n i (proc # rest) blk =
     (case proc n blk of
        Inl x \<Rightarrow> (Inl x, [ProcessCalled i])
      | Inr blk' \<Rightarrow>
          (case run_processors n (Suc i) rest blk' of
             (r, evs) \<Rightarrow> (r, ProcessCalled i # ProcessorTimeObserved i # evs)))"

text \<open>
  From \<^verbatim>\<open>GetBlock\<close> to \<^verbatim>\<open>Receive\<close> in iteration \<open>n\<close> for round \<open>r\<close>: the exported
  block or the first error, and the effects.
\<close>

definition import_process_export :: "env \<Rightarrow> nat \<Rightarrow> uint64 \<Rightarrow> (error + BlockData) \<times> event list" where
  "import_process_export e n r =
     (case GetBlock e n r of
        Inl x \<Rightarrow> (Inl x, [GetBlockCalled r])
      | Inr blk \<Rightarrow>
          (case run_processors n 0 (processors e) blk of
             (Inl x, evs) \<Rightarrow> (Inl x, GetBlockCalled r # ImporterTimeObserved # evs)
           | (Inr blk', evs) \<Rightarrow>
               (case Receive e n blk' of
                  Some x \<Rightarrow> (Inl x, GetBlockCalled r # ImporterTimeObserved # evs @ [ReceiveCalled blk'])
                | None \<Rightarrow>
                    (Inr blk', GetBlockCalled r # ImporterTimeObserved # evs @ [ReceiveCalled blk', RoundExported r]))))"

text \<open>The loop over \<^verbatim>\<open>p.completeCallback\<close>: the first error, and the effects.\<close>

fun run_callbacks ::
    "nat \<Rightarrow> nat \<Rightarrow> (nat \<Rightarrow> BlockData \<Rightarrow> error option) list \<Rightarrow> BlockData \<Rightarrow> error option \<times> event list" where
  "run_callbacks n i [] blk = (None, [])"
| "run_callbacks n i (cb # rest) blk =
     (case cb n blk of
        Some x \<Rightarrow> (Some x, [OnCompleteCalled i])
      | None \<Rightarrow>
          (case run_callbacks n (Suc i) rest blk of
             (r, evs) \<Rightarrow> (r, OnCompleteCalled i # evs)))"

text \<open>
  \<^verbatim>\<open>addMetrics\<close>. Go ranges over the map \<^verbatim>\<open>txnCountByType\<close> in no fixed order; here the
  types come in the order of their first occurrence.
\<close>

definition addMetrics :: "BlockData \<Rightarrow> event list" where
  "addMetrics block =
     [BlockImportTimeObserved, ImportedTxnsPerBlockObserved (length (Payset block)),
      ImportedRoundGaugeSet (Round block)] @
     map (\<lambda>k. ImportedTxnsSet k (count_list (Payset block) k)) (remdups (Payset block))"

text \<open>
  The lines of every error branch: \<^verbatim>\<open>p.logger.Errorf\<close>, \<^verbatim>\<open>p.setError(err)\<close>,
  \<^verbatim>\<open>retry++\<close> (then \<^verbatim>\<open>goto pipelineRun\<close>).
\<close>

definition fail :: "error \<Rightarrow> machine \<Rightarrow> machine" where
  "fail x m = (emit [ErrorLogged x] m)\<lparr>err := Some x, retry := retry m + 1\<rparr>"

text \<open>
  \<^verbatim>\<open>if retry > 0 { time.Sleep(p.cfg.RetryDelay) }\<close>: the clock moves on by the whole delay
  (\<^verbatim>\<open>Valid\<close> rejects a negative one).
\<close>

definition retry_sleep :: "machine \<Rightarrow> machine" where
  "retry_sleep m =
     (if retry m > 0
      then (emit [Slept (RetryDelay (cfg m))] m)\<lparr>now := now m + RetryDelay (cfg m)\<rparr>
      else m)"

text \<open>
  ``Increment Round, update metadata'': \<^verbatim>\<open>p.pipelineMetadata.NextRound++\<close>, then
  \<^verbatim>\<open>encodeMetadataToFile\<close>, whose error is logged and nothing else.
\<close>

definition update_metadata :: "fs_op set \<Rightarrow> machine \<Rightarrow> machine" where
  "update_metadata F m =
     (let m' = m\<lparr>pipelineMetadata :=
                  (pipelineMetadata m)\<lparr>NextRound := NextRound (pipelineMetadata m) + 1\<rparr>\<rparr>
      in case encodeMetadataToFile F (pipelineMetadata m') (disk m') of
           (Some x, d) \<Rightarrow> emit [ErrorLogged x] (m'\<lparr>disk := d\<rparr>)
         | (None, d) \<Rightarrow> emit [MetadataWritten (NextRound (pipelineMetadata m'))] (m'\<lparr>disk := d\<rparr>))"

text \<open>
  The end of a round whose callbacks all returned nil: the exporter time, the block
  metrics unless the round was round 0, \<^verbatim>\<open>p.setError(nil)\<close> and \<^verbatim>\<open>retry = 0\<close>.
\<close>

definition finish_round :: "BlockData \<Rightarrow> machine \<Rightarrow> machine" where
  "finish_round blkData m =
     (let m' = emit [ExporterTimeObserved] m;
          m'' = (if NextRound (pipelineMetadata m') > 1 then emit (addMetrics blkData) m' else m')
      in m''\<lparr>err := None, retry := 0\<rparr>)"

text \<open>How one pass through the loop body ends: the goroutine returns, or the loop goes on.\<close>

datatype outcome = Return machine | Loop machine

fun machine_of :: "outcome \<Rightarrow> machine" where
  "machine_of (Return m) = m"
| "machine_of (Loop m) = m"

text \<open>
  One pass through the body of the \<^verbatim>\<open>for\<close> loop, from the label \<^verbatim>\<open>pipelineRun\<close>.
  A plugin call returns a value or an error; a panic in a plugin, which \<^verbatim>\<open>HandlePanic\<close>
  would catch, is not modelled.
\<close>

definition pipelineRun :: "env \<Rightarrow> machine \<Rightarrow> outcome" where
  "pipelineRun e m =
     (let n = iteration m;
          m1 = emit [RetryCountObserved (retry m)] (m\<lparr>iteration := Suc n\<rparr>)
      in
      if retry m1 > RetryCount (cfg m1)
      then Return (emit [RetryExceededLogged (RetryCount (cfg m1))] m1)
      else
        let m2 = retry_sleep m1 in
        if ctxDone e (now m2) then Return m2
        else
          (case import_process_export e n (NextRound (pipelineMetadata m2)) of
             (Inl x, evs) \<Rightarrow> Loop (fail x (emit evs m2))
           | (Inr blkData, evs) \<Rightarrow>
               let m3 = update_metadata (faults e n) (emit evs m2) in
               (case run_callbacks n 0 (completeCallback e) blkData of
                  (Some x, cevs) \<Rightarrow> Loop (fail x (emit cevs m3))
                | (None, cevs) \<Rightarrow> Loop (finish_round blkData (emit cevs m3)))))"

text \<open>
  The first \<open>k\<close> passes of the loop: \<open>Return m\<close> when the goroutine has returned within
  them, leaving \<open>m\<close>, and \<open>Loop m\<close> when it is still running, in \<open>m\<close>.
\<close>

fun worker :: "nat \<Rightarrow> env \<Rightarrow> machine \<Rightarrow> outcome" where
  "worker 0 e m = Loop m"
| "worker (Suc k) e m =
     (case pipelineRun e m of
        Return m' \<Rightarrow> Return m'
      | Loop m' \<Rightarrow> worker k e m')"

text \<open>\<^verbatim>\<open>Start\<close>: \<^verbatim>\<open>retry := uint64(0)\<close>, then the loop.\<close>

definition Start :: "nat \<Rightarrow> env \<Rightarrow> machine \<Rightarrow> outcome" where
  "Start k e p = worker k e (p\<lparr>retry := 0\<rparr>)"

section \<open>Reading the effects\<close>

text \<open>The effects that took the machine from \<open>m\<close> to \<open>m'\<close>.\<close>

definition new_events :: "machine \<Rightarrow> machine \<Rightarrow> event list" where
  "new_events m m' = drop (length (trace m)) (trace m')"

text \<open>The rounds asked of the importer, in order.\<close>

fun fetched :: "event list \<Rightarrow> uint64 list" where
  "fetched [] = []"
| "fetched (GetBlockCalled r # evs) = r # fetched evs"
| "fetched (ev # evs) = fetched evs"

text \<open>The blocks handed to the exporter, in order.\<close>

fun received :: "event list \<Rightarrow> BlockData list" where
  "received [] = []"
| "received (ReceiveCalled b # evs) = b # received evs"
| "received (ev # evs) = received evs"

text \<open>The rounds the exporter accepted, in order.\<close>

fun exported :: "event list \<Rightarrow> uint64 list" where
  "exported [] = []"
| "exported (RoundExported r # evs) = r # exported evs"
| "exported (ev # evs) = exported evs"

text \<open>The \<^verbatim>\<open>next-round\<close> values that replaced \<^verbatim>\<open>metadata.json\<close>, in order.\<close>

fun written :: "event list \<Rightarrow> uint64 list" where
  "written [] = []"
| "written (MetadataWritten r # evs) = r # written evs"
| "written (ev # evs) = written evs"

text \<open>The observations of the per-stage timing histograms.\<close>

fun is_stage_timing :: "event \<Rightarrow> bool" where
  "is_stage_timing ImporterTimeObserved = True"
| "is_stage_timing (ProcessorTimeObserved i) = True"
| "is_stage_timing ExporterTimeObserved = True"
| "is_stage_timing ev = False"

text \<open>
  The pass from \<open>m\<close> gets as far as \<^verbatim>\<open>GetBlock\<close>: the retry budget is not exceeded and
  the context is not cancelled when the sleep is over.
\<close>

definition attempts :: "env \<Rightarrow> machine \<Rightarrow> bool" where
  "attempts e m =
     (\<not> retry m > RetryCount (cfg m) \<and>
      \<not> ctxDone e (if retry m > 0 then now m + RetryDelay (cfg m) else now m))"

section \<open>Example plugins\<close>

definition block :: "uint64 \<Rightarrow> BlockData" where
  "block r = \<lparr>Round = r, Payset = [''pay'']\<rparr>"

text \<open>
  An importer with a block for every round, one processor, an exporter and one completion
  callback, none of which fails; no cancellation; no failing file operation.
\<close>

definition good_env :: env where
  "good_env =
     \<lparr> GetBlock = (\<lambda>n r. Inr (block r)),
       processors = [\<lambda>n b. Inr b],
       Receive = (\<lambda>n b. None),
       completeCallback = [\<lambda>n b. None],
       ctxDone = (\<lambda>t. False),
       faults = (\<lambda>n. {}),
       CreateCPUProfile = None,
       CreateIndexerPidFile = None,
       yaml_Marshal = (\<lambda>p. None),
       ImporterInit = Inr \<lparr>HashBase64 = ''QQ=='', GenesisNetwork = ''testnet''\<rparr>,
       PluginInit = (\<lambda>p. None),
       init_faults = {} \<rparr>"

definition config :: "uint64 \<Rightarrow> Config" where
  "config rc =
     \<lparr>CPUProfile = [], PIDFilePath = [], RetryCount = rc, RetryDelay = 1000000000,
      NextRoundOverride = 0\<rparr>"

text \<open>A pipeline about to process round \<open>r\<close>, with the metadata file \<open>f\<close>.\<close>

definition machine_at :: "uint64 \<Rightarrow> uint64 \<Rightarrow> contents option \<Rightarrow> machine" where
  "machine_at rc r f =
     \<lparr>cfg = config rc, err = None,
      pipelineMetadata = \<lparr>GenesisHash = ''QQ=='', Network = ''testnet'', NextRound = r\<rparr>,
      retry = 0, iteration = 0, now = 0,
      disk = \<lparr>metadata_json = f, metadata_json_temp = None\<rparr>, trace = []\<rparr>"

text \<open>The exporter fails on every call.\<close>

definition exporter_down :: env where
  "exporter_down = good_env\<lparr>Receive := (\<lambda>n b. Some (PluginError ''exporter down''))\<rparr>"

text \<open>The importer fails on every call.\<close>

definition importer_down :: env where
  "importer_down = good_env\<lparr>GetBlock := (\<lambda>n r. Inl (PluginError ''no block''))\<rparr>"

text \<open>The completion callback fails in the first pass of the loop and in no other.\<close>

definition callback_fails_once :: env where
  "callback_fails_once =
     good_env\<lparr>completeCallback := [\<lambda>n b. if n = 0 then Some (PluginError ''OnComplete'') else None]\<rparr>"

text \<open>Two processors, of which the second fails on every call.\<close>

definition second_processor_fails :: env where
  "second_processor_fails =
     good_env\<lparr>processors := [\<lambda>n b. Inr b, \<lambda>n b. Inl (PluginError ''bad block'')]\<rparr>"

text \<open>Every \<^verbatim>\<open>os.Rename\<close> of the round loop fails.\<close>

definition rename_fails :: env where
  "rename_fails = good_env\<lparr>faults := (\<lambda>n. {Rename})\<rparr>"

text \<open>The importer fails on every call and the context is cancelled at time 1 (one nanosecond).\<close>

definition importer_down_cancelled :: env where
  "importer_down_cancelled = importer_down\<lparr>ctxDone := (\<lambda>t. 1 \<le> t)\<rparr>"

section \<open>Lemmas about the metadata store and Init\<close>

lemma json_string_ascii: "\<forall>c \<in> set s. (of_char c :: nat) < 128 \<Longrightarrow> json_string s = s"
  by (induction s) (simp_all add: Let_def)

lemma encode_cases:
  "encodeMetadataToFile F st d = (r, d') \<Longrightarrow>
   (r = None \<and> metadata_json d' = Some (json_Encode st)) \<or> (r \<noteq> None \<and> metadata_json d' = metadata_json d)"
  by (auto simp: encodeMetadataToFile_def Let_def split: if_splits)

lemma encode_snd:
  "fst (encodeMetadataToFile F st d) = None \<Longrightarrow>
     metadata_json (snd (encodeMetadataToFile F st d)) = Some (json_Encode st)"
  "fst (encodeMetadataToFile F st d) = Some x \<Longrightarrow>
     metadata_json (snd (encodeMetadataToFile F st d)) = metadata_json d"
  by (auto simp: encodeMetadataToFile_def Let_def split: if_splits)

lemma encode_ok:
  "Create \<notin> F \<Longrightarrow> Encode \<notin> F \<Longrightarrow> Rename \<notin> F \<Longrightarrow>
   encodeMetadataToFile F st d = (None, \<lparr>metadata_json = Some (json_Encode st), metadata_json_temp = None\<rparr>)"
  by (simp add: encodeMetadataToFile_def Let_def)

lemma load_existing_keeps_disk:
  "metadata_json d = Some (Document gh nw nr) \<Longrightarrow>
   initializeOrLoadBlockMetadata F st d = (st', r, d') \<Longrightarrow> d' = d"
  by (auto simp: initializeOrLoadBlockMetadata_def os_Stat_def Let_def split: if_splits)

lemma load_existing_result:
  "metadata_json d = Some (Document (Some h) nw nr) \<Longrightarrow>
   initializeOrLoadBlockMetadata F st d = (st', None, d') \<Longrightarrow> GenesisHash st' = h"
  by (auto simp: initializeOrLoadBlockMetadata_def os_Stat_def store_fields_def Let_def split: if_splits)

lemma load_existing_ok:
  "metadata_json d = Some (Document gh nw nr) \<Longrightarrow> Stat \<notin> F \<Longrightarrow> ReadFile \<notin> F \<Longrightarrow>
   initializeOrLoadBlockMetadata F st d =
     (store_fields gh nw nr st, None, d)"
  by (simp add: initializeOrLoadBlockMetadata_def os_Stat_def Let_def)

lemma load_created:
  "metadata_json d = None \<or> metadata_json d = Some Zero_length \<Longrightarrow>
   initializeOrLoadBlockMetadata F st d = (st', None, d') \<Longrightarrow>
   st' = st \<and> metadata_json d' = Some (json_Encode st)"
  by (auto simp: initializeOrLoadBlockMetadata_def os_Stat_def Let_def split: if_splits prod.splits option.splits
      dest: encode_cases)

lemma load_malformed:
  "metadata_json d = Some (Malformed gh nw nr) \<Longrightarrow>
   initializeOrLoadBlockMetadata F st d = (st', r, d') \<Longrightarrow> r \<noteq> None \<and> d' = d"
  by (auto simp: initializeOrLoadBlockMetadata_def os_Stat_def Let_def split: if_splits)

lemma load_rejected:
  "metadata_json d = Some (Malformed gh nw nr) \<Longrightarrow> Stat \<notin> F \<Longrightarrow> ReadFile \<notin> F \<Longrightarrow>
   initializeOrLoadBlockMetadata F st d =
     (store_fields gh nw nr st, Some (Errorf ''error reading metadata'' (OsError Unmarshal)), d)"
  by (simp add: initializeOrLoadBlockMetadata_def os_Stat_def Let_def)

lemma load_remove_fails:
  "metadata_json d = Some Zero_length \<Longrightarrow> Stat \<notin> F \<Longrightarrow> Remove \<in> F \<Longrightarrow>
   initializeOrLoadBlockMetadata F st d =
     (st, Some (Errorf ''Init(): error creating file'' (OsError Remove)), d)"
  by (simp add: initializeOrLoadBlockMetadata_def os_Stat_def Let_def)

lemma load_removed_then_create_fails:
  "metadata_json d = Some Zero_length \<Longrightarrow> Stat \<notin> F \<Longrightarrow> Remove \<notin> F \<Longrightarrow> Create \<in> F \<Longrightarrow>
   initializeOrLoadBlockMetadata F st d =
     (st, Some (Errorf ''Init(): error creating file''
        (Errorf ''encodeMetadataToFile(): failed to create temp metadata file'' (OsError Create))),
      d\<lparr>metadata_json := None\<rparr>)"
  by (simp add: initializeOrLoadBlockMetadata_def os_Stat_def encodeMetadataToFile_def Let_def)

lemma Init_trace: "trace (snd (Init e p)) = trace p"
  by (auto simp: Init_def Let_def split: option.splits sum.splits prod.splits)

lemma Init_success:
  assumes "Init e p = (None, p')"
  shows "\<exists>g st. ImporterInit e = Inr g \<and>
     initializeOrLoadBlockMetadata (init_faults e)
       ((pipelineMetadata p)\<lparr>GenesisHash := HashBase64 g, Network := GenesisNetwork g\<rparr>) (disk p) =
       (st, None, disk p') \<and>
     GenesisHash st = HashBase64 g \<and>
     pipelineMetadata p' =
       (if NextRoundOverride (cfg p) > 0 then st\<lparr>NextRound := NextRoundOverride (cfg p)\<rparr> else st) \<and>
     cfg p' = cfg p"
  using assms
  by (auto simp: Init_def Let_def split: option.splits sum.splits prod.splits if_splits)

section \<open>Lemmas about one pass of the loop\<close>

lemmas step_defs = pipelineRun_def retry_sleep_def update_metadata_def finish_round_def fail_def emit_def Let_def

lemmas example_defs = good_env_def config_def machine_at_def block_def

lemmas example_envs = exporter_down_def importer_down_def callback_fails_once_def rename_fails_def
  importer_down_cancelled_def

lemmas run_defs = step_defs import_process_export_def encodeMetadataToFile_def json_Encode_def
  addMetrics_def new_events_def attempts_def

lemmas init_defs = Init_def initializeOrLoadBlockMetadata_def os_Stat_def encodeMetadataToFile_def
  json_Encode_def store_fields_def in_range_def Let_def

lemma run_processors_events:
  "set (snd (run_processors n i ps b)) \<subseteq> range ProcessCalled \<union> range ProcessorTimeObserved"
  by (induction ps arbitrary: i b) (auto simp: split_beta split: sum.splits)

lemma run_callbacks_events:
  "set (snd (run_callbacks n i cbs b)) \<subseteq> range OnCompleteCalled"
  by (induction cbs arbitrary: i) (auto simp: split_beta split: option.splits)

lemma addMetrics_events:
  "set (addMetrics b) \<subseteq> {BlockImportTimeObserved, ImportedTxnsPerBlockObserved (length (Payset b)),
      ImportedRoundGaugeSet (Round b)} \<union> range (\<lambda>(k, c). ImportedTxnsSet k c)"
  by (auto simp: addMetrics_def)

lemma fetched_append [simp]: "fetched (xs @ ys) = fetched xs @ fetched ys"
  by (induction xs rule: fetched.induct) auto

lemma received_append [simp]: "received (xs @ ys) = received xs @ received ys"
  by (induction xs rule: received.induct) auto

lemma exported_append [simp]: "exported (xs @ ys) = exported xs @ exported ys"
  by (induction xs rule: exported.induct) auto

lemma written_append [simp]: "written (xs @ ys) = written xs @ written ys"
  by (induction xs rule: written.induct) auto

lemma run_processors_quiet [simp]:
  "fetched (snd (run_processors n i ps b)) = []"
  "exported (snd (run_processors n i ps b)) = []"
  "written (snd (run_processors n i ps b)) = []"
  "received (snd (run_processors n i ps b)) = []"
  by (induction ps arbitrary: i b; simp add: split_beta split: sum.splits)+

lemma run_callbacks_quiet [simp]:
  "fetched (snd (run_callbacks n i cbs b)) = []"
  "exported (snd (run_callbacks n i cbs b)) = []"
  "written (snd (run_callbacks n i cbs b)) = []"
  "received (snd (run_callbacks n i cbs b)) = []"
  "filter is_stage_timing (snd (run_callbacks n i cbs b)) = []"
  by (induction cbs arbitrary: i; simp add: split_beta split: option.splits)+

lemma map_quiet:
  "fetched (map (\<lambda>k. ImportedTxnsSet k (c k)) ks) = []"
  "exported (map (\<lambda>k. ImportedTxnsSet k (c k)) ks) = []"
  "written (map (\<lambda>k. ImportedTxnsSet k (c k)) ks) = []"
  "received (map (\<lambda>k. ImportedTxnsSet k (c k)) ks) = []"
  "filter is_stage_timing (map (\<lambda>k. ImportedTxnsSet k (c k)) ks) = []"
  by (induction ks; simp)+

lemma addMetrics_quiet [simp]:
  "fetched (addMetrics b) = []"
  "exported (addMetrics b) = []"
  "written (addMetrics b) = []"
  "received (addMetrics b) = []"
  "filter is_stage_timing (addMetrics b) = []"
  by (simp_all add: addMetrics_def map_quiet)

lemma ipe_fetched [simp]: "fetched (snd (import_process_export e n r)) = [r]"
  by (simp add: import_process_export_def split_beta split: sum.splits option.splits)

lemma ipe_written [simp]: "written (snd (import_process_export e n r)) = []"
  by (simp add: import_process_export_def split_beta split: sum.splits option.splits)

lemma ipe_exported:
  "exported (snd (import_process_export e n r)) =
     (case fst (import_process_export e n r) of Inl x \<Rightarrow> [] | Inr b \<Rightarrow> [r])"
  by (simp add: import_process_export_def split_beta split: sum.splits option.splits)

lemma run_processors_not_mem [simp]:
  "ExporterTimeObserved \<notin> set (snd (run_processors n i ps b))"
  "ImporterTimeObserved \<notin> set (snd (run_processors n i ps b))"
  using run_processors_events [of n i ps b] by auto

lemma run_callbacks_not_mem [simp]:
  "ExporterTimeObserved \<notin> set (snd (run_callbacks n i cbs b))"
  "ImporterTimeObserved \<notin> set (snd (run_callbacks n i cbs b))"
  "ProcessorTimeObserved j \<notin> set (snd (run_callbacks n i cbs b))"
  using run_callbacks_events [of n i cbs b] by auto

lemma addMetrics_not_mem [simp]:
  "ExporterTimeObserved \<notin> set (addMetrics b)"
  "ImporterTimeObserved \<notin> set (addMetrics b)"
  "ProcessorTimeObserved j \<notin> set (addMetrics b)"
  using addMetrics_events [of b] by auto

lemma ipe_importer_time:
  "ImporterTimeObserved \<in> set (snd (import_process_export e n r)) \<longleftrightarrow> (\<exists>b. GetBlock e n r = Inr b)"
  by (simp add: import_process_export_def split_beta split: sum.splits option.splits)

lemma ipe_exporter_time [simp]:
  "ExporterTimeObserved \<notin> set (snd (import_process_export e n r))"
  by (simp add: import_process_export_def split_beta split: sum.splits option.splits)

lemma ipe_processor_time:
  "ProcessorTimeObserved i \<in> set (snd (import_process_export e n r)) \<Longrightarrow>
   ImporterTimeObserved \<in> set (snd (import_process_export e n r))"
  by (simp add: import_process_export_def split_beta split: sum.splits option.splits)

lemma ipe_importer_failed:
  "GetBlock e n r = Inl x \<Longrightarrow> import_process_export e n r = (Inl x, [GetBlockCalled r])"
  by (simp add: import_process_export_def)

lemma run_processors_fst_index:
  "fst (run_processors n j ps b) = fst (run_processors n 0 ps b)"
proof (induction ps arbitrary: j b)
  case Nil
  show ?case by simp
next
  case (Cons p ps)
  show ?case
    using Cons.IH [of "Suc j"] Cons.IH [of "Suc 0"]
    by (simp add: split_beta split: sum.splits)
qed

lemma run_processors_time:
  "ProcessorTimeObserved i \<in> set (snd (run_processors n j ps b)) \<longleftrightarrow>
     j \<le> i \<and> i - j < length ps \<and>
     (\<exists>b' b''. fst (run_processors n 0 (take (i - j) ps) b) = Inr b' \<and> (ps ! (i - j)) n b' = Inr b'')"
proof (induction ps arbitrary: j b)
  case Nil
  show ?case by simp
next
  case (Cons p ps)
  show ?case
  proof (cases "p n b")
    case (Inl x)
    then show ?thesis
      by (cases "i - j") (auto simp: split_beta)
  next
    case (Inr b1)
    show ?thesis
    proof (cases "i \<le> j")
      case True
      then show ?thesis
        using Inr Cons.IH [of "Suc j" b1] by (auto simp: split_beta)
    next
      case False
      then obtain k where k: "i - j = Suc k" "i - Suc j = k"
        by (cases "i - j") auto
      have "fst (run_processors n 0 (take (i - j) (p # ps)) b) = fst (run_processors n 0 (take k ps) b1)"
        using Inr k run_processors_fst_index [of n "Suc 0" "take k ps" b1]
        by (simp add: split_beta)
      then show ?thesis
        using Inr False k Cons.IH [of "Suc j" b1] by (auto simp: split_beta)
    qed
  qed
qed

lemma ipe_processor_time_iff:
  "ProcessorTimeObserved i \<in> set (snd (import_process_export e n r)) \<longleftrightarrow>
     (\<exists>b. GetBlock e n r = Inr b \<and> ProcessorTimeObserved i \<in> set (snd (run_processors n 0 (processors e) b)))"
  by (simp add: import_process_export_def split_beta split: sum.splits option.splits)

lemma pipelineRun_trace:
  "\<exists>evs. trace (machine_of (pipelineRun e m)) = trace m @ RetryCountObserved (retry m) # evs"
  by (simp add: step_defs split_beta split: sum.splits option.splits)

lemma trace_new_events: "trace m' = trace m @ evs \<Longrightarrow> new_events m m' = evs"
  by (simp add: new_events_def)

lemma trace_grows: "trace m' = trace m @ evs \<Longrightarrow> trace m' = trace m @ new_events m m'"
  by (simp add: new_events_def)

lemma pipelineRun_new_events:
  "trace (machine_of (pipelineRun e m)) = trace m @ new_events m (machine_of (pipelineRun e m))"
  using pipelineRun_trace [of e m] by (auto simp: new_events_def)

lemma pipelineRun_frame:
  "cfg (machine_of (pipelineRun e m)) = cfg m"
  "iteration (machine_of (pipelineRun e m)) = Suc (iteration m)"
  "GenesisHash (pipelineMetadata (machine_of (pipelineRun e m))) = GenesisHash (pipelineMetadata m)"
  "Network (pipelineMetadata (machine_of (pipelineRun e m))) = Network (pipelineMetadata m)"
  by (simp_all add: step_defs split_beta split: sum.splits option.splits)

lemma pipelineRun_fetched:
  "fetched (new_events m (machine_of (pipelineRun e m))) =
     (if attempts e m then [NextRound (pipelineMetadata m)] else [])"
  by (simp add: step_defs new_events_def attempts_def split_beta split: sum.splits option.splits)

lemma pipelineRun_exported:
  "exported (new_events m (machine_of (pipelineRun e m))) =
     (if attempts e m then
        (case fst (import_process_export e (iteration m) (NextRound (pipelineMetadata m))) of
           Inl x \<Rightarrow> [] | Inr b \<Rightarrow> [NextRound (pipelineMetadata m)])
      else [])"
  by (simp add: step_defs new_events_def attempts_def split_beta ipe_exported split: sum.splits option.splits)

lemma pipelineRun_NextRound:
  "NextRound (pipelineMetadata (machine_of (pipelineRun e m))) =
     NextRound (pipelineMetadata m) + of_nat (length (exported (new_events m (machine_of (pipelineRun e m)))))"
  by (simp add: step_defs new_events_def split_beta ipe_exported split: sum.splits option.splits)

lemma pipelineRun_written:
  "written (new_events m (machine_of (pipelineRun e m))) = [] \<or>
   written (new_events m (machine_of (pipelineRun e m))) = [NextRound (pipelineMetadata m) + 1] \<and>
   exported (new_events m (machine_of (pipelineRun e m))) = [NextRound (pipelineMetadata m)]"
  by (simp add: step_defs new_events_def split_beta ipe_exported split: sum.splits option.splits)

lemma pipelineRun_disk:
  "metadata_json (disk (machine_of (pipelineRun e m))) =
     (case written (new_events m (machine_of (pipelineRun e m))) of
        [] \<Rightarrow> metadata_json (disk m)
      | r # rs \<Rightarrow> Some (json_Encode ((pipelineMetadata m)\<lparr>NextRound := r\<rparr>)))"
  by (simp add: step_defs new_events_def split_beta ipe_exported json_Encode_def encode_snd split: sum.splits option.splits)

lemma pipelineRun_outcome:
  "pipelineRun e m = (if attempts e m then Loop (machine_of (pipelineRun e m))
                      else Return (machine_of (pipelineRun e m)))"
  by (simp add: step_defs attempts_def split_beta split: sum.splits option.splits)

lemma pipelineRun_err:
  "err (machine_of (pipelineRun e m)) =
     (if attempts e m then
        (case fst (import_process_export e (iteration m) (NextRound (pipelineMetadata m))) of
           Inl x \<Rightarrow> Some x
         | Inr blk \<Rightarrow> fst (run_callbacks (iteration m) 0 (completeCallback e) blk))
      else err m)"
  by (auto simp add: step_defs attempts_def split_beta split: sum.splits option.splits)

lemma pipelineRun_retry:
  "retry (machine_of (pipelineRun e m)) =
     (if attempts e m then
        (case fst (import_process_export e (iteration m) (NextRound (pipelineMetadata m))) of
           Inl x \<Rightarrow> retry m + 1
         | Inr blk \<Rightarrow>
             (case fst (run_callbacks (iteration m) 0 (completeCallback e) blk) of
                None \<Rightarrow> 0 | Some y \<Rightarrow> retry m + 1))
      else retry m)"
  by (auto simp add: step_defs attempts_def split_beta split: sum.splits option.splits)

lemma pipelineRun_now:
  "now (machine_of (pipelineRun e m)) =
     (if retry m > RetryCount (cfg m) \<or> \<not> retry m > 0 then now m else now m + RetryDelay (cfg m))"
  by (auto simp add: step_defs split_beta split: sum.splits option.splits)

lemma pipelineRun_events:
  "new_events m (machine_of (pipelineRun e m)) =
     RetryCountObserved (retry m) #
     (if retry m > RetryCount (cfg m) then [RetryExceededLogged (RetryCount (cfg m))]
      else
        (if retry m > 0 then [Slept (RetryDelay (cfg m))] else []) @
        (if \<not> attempts e m then []
         else
           snd (import_process_export e (iteration m) (NextRound (pipelineMetadata m))) @
           (case fst (import_process_export e (iteration m) (NextRound (pipelineMetadata m))) of
              Inl x \<Rightarrow> [ErrorLogged x]
            | Inr blk \<Rightarrow>
                (case fst (encodeMetadataToFile (faults e (iteration m))
                        ((pipelineMetadata m)\<lparr>NextRound := NextRound (pipelineMetadata m) + 1\<rparr>)
                        (disk m)) of
                   Some x \<Rightarrow> [ErrorLogged x]
                 | None \<Rightarrow> [MetadataWritten (NextRound (pipelineMetadata m) + 1)]) @
                snd (run_callbacks (iteration m) 0 (completeCallback e) blk) @
                (case fst (run_callbacks (iteration m) 0 (completeCallback e) blk) of
                   Some y \<Rightarrow> [ErrorLogged y]
                 | None \<Rightarrow>
                     ExporterTimeObserved #
                     (if NextRound (pipelineMetadata m) + 1 > 1 then addMetrics blk else [])))))"
  by (auto simp add: step_defs new_events_def attempts_def split_beta split: sum.splits option.splits)

lemma failing_pass:
  assumes "attempts e m"
    and "fst (import_process_export e (iteration m) (NextRound (pipelineMetadata m))) = Inl x"
  shows "retry (machine_of (pipelineRun e m)) = retry m + 1"
    and "err (machine_of (pipelineRun e m)) = Some x"
    and "disk (machine_of (pipelineRun e m)) = disk m"
    and "pipelineMetadata (machine_of (pipelineRun e m)) = pipelineMetadata m"
  using assms
  by (auto simp add: step_defs attempts_def split_beta split: sum.splits if_splits)

lemma returning_pass:
  assumes "\<not> attempts e m"
  shows "err (machine_of (pipelineRun e m)) = err m"
    and "disk (machine_of (pipelineRun e m)) = disk m"
    and "pipelineMetadata (machine_of (pipelineRun e m)) = pipelineMetadata m"
  using assms
  by (auto simp add: step_defs attempts_def split_beta split: sum.splits)

section \<open>Lemmas about the loop\<close>

lemma worker_Suc:
  "worker (Suc k) e m =
     (if attempts e m then worker k e (machine_of (pipelineRun e m))
      else Return (machine_of (pipelineRun e m)))"
proof (cases "pipelineRun e m")
  case (Return m')
  have "\<not> attempts e m"
    by (metis Return pipelineRun_outcome outcome.distinct(1))
  then show ?thesis using Return by simp
next
  case (Loop m')
  have "attempts e m"
    by (metis Loop pipelineRun_outcome outcome.distinct(1))
  then show ?thesis using Loop by simp
qed

lemma worker_Suc_machine:
  "machine_of (worker (Suc k) e m) =
     (if attempts e m then machine_of (worker k e (machine_of (pipelineRun e m)))
      else machine_of (pipelineRun e m))"
  by (simp add: worker_Suc del: worker.simps)

lemma worker_trace:
  "trace (machine_of (worker k e m)) = trace m @ new_events m (machine_of (worker k e m))"
proof (induction k arbitrary: m)
  case 0
  show ?case by (simp add: new_events_def)
next
  case (Suc k)
  show ?case
  proof (cases "attempts e m")
    case True
    let ?m1 = "machine_of (pipelineRun e m)"
    let ?m2 = "machine_of (worker k e ?m1)"
    have "trace ?m2 = trace m @ (new_events m ?m1 @ new_events ?m1 ?m2)"
      using Suc.IH [of ?m1] pipelineRun_new_events [of e m] by simp
    then have "trace ?m2 = trace m @ new_events m ?m2"
      by (rule trace_grows)
    then show ?thesis using True by (simp only: worker_Suc_machine if_True)
  next
    case False
    then show ?thesis using pipelineRun_new_events [of e m]
      by (simp only: worker_Suc_machine if_False)
  qed
qed

lemma worker_new_events_Suc:
  "new_events m (machine_of (worker (Suc k) e m)) =
     new_events m (machine_of (pipelineRun e m)) @
     (if attempts e m
      then new_events (machine_of (pipelineRun e m)) (machine_of (worker k e (machine_of (pipelineRun e m))))
      else [])"
proof (cases "attempts e m")
  case True
  let ?m1 = "machine_of (pipelineRun e m)"
  let ?m2 = "machine_of (worker k e ?m1)"
  have "trace ?m2 = trace m @ (new_events m ?m1 @ new_events ?m1 ?m2)"
    using worker_trace [of k e ?m1] pipelineRun_new_events [of e m] by simp
  then have "new_events m ?m2 = new_events m ?m1 @ new_events ?m1 ?m2"
    by (rule trace_new_events)
  then show ?thesis using True by (simp only: worker_Suc_machine if_True)
next
  case False
  then show ?thesis by (simp only: worker_Suc_machine if_False append_Nil2)
qed

lemma worker_frame:
  "cfg (machine_of (worker k e m)) = cfg m"
  "GenesisHash (pipelineMetadata (machine_of (worker k e m))) = GenesisHash (pipelineMetadata m)"
  "Network (pipelineMetadata (machine_of (worker k e m))) = Network (pipelineMetadata m)"
proof (induction k arbitrary: m)
  case 0
  { case 1 show ?case by simp }
  { case 2 show ?case by simp }
  { case 3 show ?case by simp }
next
  case (Suc k)
  { case 1 show ?case using Suc(1) by (simp add: worker_Suc_machine pipelineRun_frame del: worker.simps) }
  { case 2 show ?case using Suc(2) by (simp add: worker_Suc_machine pipelineRun_frame del: worker.simps) }
  { case 3 show ?case using Suc(3) by (simp add: worker_Suc_machine pipelineRun_frame del: worker.simps) }
qed

lemma worker_NextRound:
  "NextRound (pipelineMetadata (machine_of (worker k e m))) =
     NextRound (pipelineMetadata m) + of_nat (length (exported (new_events m (machine_of (worker k e m)))))"
proof (induction k arbitrary: m)
  case 0
  show ?case by (simp add: new_events_def)
next
  case (Suc k)
  show ?case
  proof (cases "attempts e m")
    case True
    show ?thesis
      unfolding worker_new_events_Suc
      using True Suc.IH [of "machine_of (pipelineRun e m)"] pipelineRun_NextRound [of e m]
      by (simp add: worker_Suc_machine del: worker.simps)
  next
    case False
    show ?thesis
      unfolding worker_new_events_Suc
      using False pipelineRun_NextRound [of e m]
      by (simp add: worker_Suc_machine del: worker.simps)
  qed
qed

lemma worker_disk:
  "metadata_json (disk (machine_of (worker k e m))) =
     (if written (new_events m (machine_of (worker k e m))) = [] then metadata_json (disk m)
      else Some (json_Encode ((pipelineMetadata m)
                  \<lparr>NextRound := last (written (new_events m (machine_of (worker k e m))))\<rparr>)))"
proof (induction k arbitrary: m)
  case 0
  show ?case by (simp add: new_events_def)
next
  case (Suc k)
  let ?m1 = "machine_of (pipelineRun e m)"
  show ?case
  proof (cases "attempts e m")
    case True
    show ?thesis
      unfolding worker_new_events_Suc
      using True Suc.IH [of ?m1] pipelineRun_disk [of e m] pipelineRun_written [of m e]
      by (auto simp: worker_Suc_machine pipelineRun_frame json_Encode_def simp del: worker.simps split: list.splits)
  next
    case False
    show ?thesis
      unfolding worker_new_events_Suc
      using False pipelineRun_disk [of e m] pipelineRun_written [of m e]
      by (auto simp: worker_Suc_machine simp del: worker.simps split: list.splits)
  qed
qed

lemma unat_Suc_below:
  fixes r c :: uint64
  assumes "r \<le> c" and "c \<noteq> - 1"
  shows "unat (r + 1) = Suc (unat r)"
proof -
  have "r \<noteq> - 1" using assms by (metis word_order.extremum_unique)
  then have "1 + r \<noteq> 0" by (metis add.commute add_eq_0_iff)
  then have "unat (1 + r) = Suc (unat r)" by (rule unatSuc)
  then show ?thesis by (simp add: add.commute)
qed

lemma always_failing_worker:
  assumes "\<forall>t. \<not> ctxDone e t"
    and "\<forall>n. fst (import_process_export e n (NextRound (pipelineMetadata m))) = Inl x"
    and "RetryCount (cfg m) \<noteq> - 1"
    and "d = Suc (unat (RetryCount (cfg m))) - unat (retry m)"
  shows "worker (Suc d) e m = Return (machine_of (worker (Suc d) e m)) \<and>
     fetched (new_events m (machine_of (worker (Suc d) e m))) = replicate d (NextRound (pipelineMetadata m)) \<and>
     err (machine_of (worker (Suc d) e m)) = (if d = 0 then err m else Some x) \<and>
     disk (machine_of (worker (Suc d) e m)) = disk m \<and>
     pipelineMetadata (machine_of (worker (Suc d) e m)) = pipelineMetadata m"
  using assms
proof (induction d arbitrary: m)
  case 0
  then have "unat (RetryCount (cfg m)) < unat (retry m)" by simp
  then have "RetryCount (cfg m) < retry m" by (simp add: word_less_nat_alt)
  then have na: "\<not> attempts e m" by (simp add: attempts_def)
  have w: "worker (Suc 0) e m = Return (machine_of (pipelineRun e m))"
    using na by (simp only: worker_Suc if_False)
  show ?case
    unfolding w machine_of.simps
    using na by (simp add: returning_pass pipelineRun_fetched)
next
  case (Suc d)
  let ?m1 = "machine_of (pipelineRun e m)"
  have le: "retry m \<le> RetryCount (cfg m)"
    using Suc.prems(4) by (simp add: word_le_nat_alt)
  then have at: "attempts e m"
    using Suc.prems(1) by (simp add: attempts_def)
  have fl: "fst (import_process_export e (iteration m) (NextRound (pipelineMetadata m))) = Inl x"
    using Suc.prems(2) by blast
  note fp = failing_pass [OF at fl]
  have r1: "unat (retry ?m1) = Suc (unat (retry m))"
    using unat_Suc_below [OF le Suc.prems(3)] fp(1) by simp
  have d: "d = Suc (unat (RetryCount (cfg ?m1))) - unat (retry ?m1)"
    using Suc.prems(4) r1 by (simp add: pipelineRun_frame)
  have ih: "worker (Suc d) e ?m1 = Return (machine_of (worker (Suc d) e ?m1)) \<and>
     fetched (new_events ?m1 (machine_of (worker (Suc d) e ?m1))) = replicate d (NextRound (pipelineMetadata ?m1)) \<and>
     err (machine_of (worker (Suc d) e ?m1)) = (if d = 0 then err ?m1 else Some x) \<and>
     disk (machine_of (worker (Suc d) e ?m1)) = disk ?m1 \<and>
     pipelineMetadata (machine_of (worker (Suc d) e ?m1)) = pipelineMetadata ?m1"
    using Suc.IH [of ?m1] Suc.prems(1,2,3) d fp(4) by (simp add: pipelineRun_frame)
  have w: "worker (Suc (Suc d)) e m = worker (Suc d) e ?m1"
    using at by (simp only: worker_Suc [of "Suc d"] if_True)
  have ev: "new_events m (machine_of (worker (Suc (Suc d)) e m)) =
      new_events m ?m1 @ new_events ?m1 (machine_of (worker (Suc d) e ?m1))"
    using at by (simp only: worker_new_events_Suc [of m "Suc d"] if_True)
  show ?case
    unfolding ev unfolding w
    using ih fp at by (simp add: pipelineRun_fetched del: worker.simps)
qed

lemma never_returns:
  assumes "RetryCount (cfg m) = - 1" and "\<forall>t. \<not> ctxDone e t"
  shows "worker k e m = Loop (machine_of (worker k e m)) \<and>
     length (fetched (new_events m (machine_of (worker k e m)))) = k"
  using assms
proof (induction k arbitrary: m)
  case 0
  show ?case by (simp add: new_events_def)
next
  case (Suc k)
  let ?m1 = "machine_of (pipelineRun e m)"
  have at: "attempts e m"
    using Suc.prems by (simp add: attempts_def)
  have w: "worker (Suc k) e m = worker k e ?m1"
    using at by (simp only: worker_Suc if_True)
  have ev: "new_events m (machine_of (worker (Suc k) e m)) =
      new_events m ?m1 @ new_events ?m1 (machine_of (worker k e ?m1))"
    using at by (simp only: worker_new_events_Suc if_True)
  have ih: "worker k e ?m1 = Loop (machine_of (worker k e ?m1)) \<and>
     length (fetched (new_events ?m1 (machine_of (worker k e ?m1)))) = k"
    using Suc.IH [of ?m1] Suc.prems by (simp add: pipelineRun_frame)
  show ?case
    unfolding ev unfolding w
    using ih at by (simp add: pipelineRun_fetched)
qed

lemma unat_add_of_nat:
  fixes c :: uint64
  assumes "unat c + n < 2 ^ 64"
  shows "unat (c + of_nat n) = unat c + n"
proof -
  have "n < 2 ^ 64" using assms by simp
  then have "unat (of_nat n :: uint64) = n"
    by (simp add: unat_of_nat)
  then show ?thesis
    using assms by (simp add: unat_add_lem [THEN iffD1])
qed

lemma pipelineRun_exported_le:
  "length (exported (new_events m (machine_of (pipelineRun e m)))) \<le> 1"
  by (simp add: pipelineRun_exported split: sum.splits)

lemma worker_written:
  assumes "unat (NextRound (pipelineMetadata m)) +
      length (exported (new_events m (machine_of (worker k e m)))) < 2 ^ 64"
  shows "sorted_wrt (<) (map unat (written (new_events m (machine_of (worker k e m))))) \<and>
     (\<forall>v \<in> set (written (new_events m (machine_of (worker k e m)))).
        unat (NextRound (pipelineMetadata m)) < unat v \<and>
        unat v \<le> unat (NextRound (pipelineMetadata m)) +
          length (exported (new_events m (machine_of (worker k e m)))))"
  using assms
proof (induction k arbitrary: m)
  case 0
  show ?case by (simp add: new_events_def)
next
  case (Suc k)
  let ?c = "NextRound (pipelineMetadata m)"
  let ?m1 = "machine_of (pipelineRun e m)"
  let ?evs1 = "new_events m ?m1"
  let ?n1 = "length (exported ?evs1)"
  have n1: "?n1 \<le> 1" by (rule pipelineRun_exported_le)
  have wr: "written ?evs1 = [] \<or> written ?evs1 = [?c + 1] \<and> exported ?evs1 = [?c]"
    by (rule pipelineRun_written)
  show ?case
  proof (cases "attempts e m")
    case False
    have ev: "new_events m (machine_of (worker (Suc k) e m)) = ?evs1"
      using False by (simp only: worker_new_events_Suc if_False append_Nil2)
    have nw: "unat ?c + ?n1 < 2 ^ 64"
      using Suc.prems unfolding ev .
    show ?thesis
      unfolding ev
      using wr nw unat_add_of_nat [of ?c 1] by auto
  next
    case True
    let ?m2 = "machine_of (worker k e ?m1)"
    let ?evs2 = "new_events ?m1 ?m2"
    let ?n2 = "length (exported ?evs2)"
    have ev: "new_events m (machine_of (worker (Suc k) e m)) = ?evs1 @ ?evs2"
      using True by (simp only: worker_new_events_Suc if_True)
    have nw: "unat ?c + (?n1 + ?n2) < 2 ^ 64"
      using Suc.prems unfolding ev by simp
    then have nw1: "unat ?c + ?n1 < 2 ^ 64" by simp
    have c1: "unat (NextRound (pipelineMetadata ?m1)) = unat ?c + ?n1"
      using pipelineRun_NextRound [of e m] unat_add_of_nat [OF nw1] by simp
    have ih: "sorted_wrt (<) (map unat (written ?evs2)) \<and>
       (\<forall>v \<in> set (written ?evs2). unat ?c + ?n1 < unat v \<and> unat v \<le> unat ?c + ?n1 + ?n2)"
      using Suc.IH [of ?m1] nw c1 by (simp add: add.assoc)
    show ?thesis
    proof (cases "written ?evs1 = []")
      case True
      then show ?thesis unfolding ev using ih by (auto simp: sorted_wrt_append)
    next
      case False
      then have w1: "written ?evs1 = [?c + 1]" and e1: "?n1 = 1"
        using wr by auto
      have u1: "unat (?c + 1) = unat ?c + 1"
        using unat_add_of_nat [of ?c 1] nw1 e1 by simp
      show ?thesis
        unfolding ev using ih w1 e1 u1 by (auto simp: sorted_wrt_append)
    qed
  qed
qed

lemma worker_numeral:
  "worker (numeral n) e m =
     (case pipelineRun e m of Return m' \<Rightarrow> Return m' | Loop m' \<Rightarrow> worker (pred_numeral n) e m')"
  by (simp add: numeral_eq_Suc)

section \<open>The claims\<close>

text \<open>
  C1, as the code has it. When a completion callback returns an error after round \<open>N\<close> has
  been exported, the error is latched and \<open>retry\<close> is incremented, but
  \<^verbatim>\<open>NextRound\<close> has already been incremented and stays at \<open>N + 1\<close>: the next pass, if it
  gets as far as the importer, asks it for round \<open>N + 1\<close> and for no other.
\<close>

theorem callback_error_moves_on:
  assumes "attempts e m"
    and "fst (import_process_export e (iteration m) (NextRound (pipelineMetadata m))) = Inr blk"
    and "fst (run_callbacks (iteration m) 0 (completeCallback e) blk) = Some x"
  shows "\<exists>m'. pipelineRun e m = Loop m' \<and> err m' = Some x \<and> retry m' = retry m + 1 \<and>
     exported (new_events m m') = [NextRound (pipelineMetadata m)] \<and>
     NextRound (pipelineMetadata m') = NextRound (pipelineMetadata m) + 1 \<and>
     fetched (new_events m' (machine_of (pipelineRun e m'))) =
       (if attempts e m' then [NextRound (pipelineMetadata m) + 1] else [])"
proof -
  define m' where "m' = machine_of (pipelineRun e m)"
  have run: "pipelineRun e m = Loop m'"
    using assms(1) pipelineRun_outcome [of e m] by (simp add: m'_def)
  have exp: "exported (new_events m m') = [NextRound (pipelineMetadata m)]"
    using assms(1,2) by (simp add: m'_def pipelineRun_exported)
  have 1: "NextRound (pipelineMetadata m') = NextRound (pipelineMetadata m) + 1"
    using pipelineRun_NextRound [of e m] exp by (simp add: m'_def)
  have 2: "err m' = Some x \<and> retry m' = retry m + 1"
    using assms by (simp add: m'_def pipelineRun_err pipelineRun_retry)
  have 3: "fetched (new_events m' (machine_of (pipelineRun e m'))) =
       (if attempts e m' then [NextRound (pipelineMetadata m) + 1] else [])"
    using 1 by (simp add: pipelineRun_fetched)
  show ?thesis using run exp 1 2 3 by blast
qed

text \<open>
  The theorem at the example: the callback fails after the export of round 4; the error is
  latched, \<open>retry\<close> is 1 and the next round is 5.
\<close>

theorem callback_error_moves_on_witness:
  "attempts callback_fails_once (machine_at 2 4 None) \<and>
   fst (import_process_export callback_fails_once 0 4) = Inr (block 4) \<and>
   fst (run_callbacks 0 0 (completeCallback callback_fails_once) (block 4)) = Some (PluginError ''OnComplete'') \<and>
   (\<exists>m'. pipelineRun callback_fails_once (machine_at 2 4 None) = Loop m' \<and>
      err m' = Some (PluginError ''OnComplete'') \<and> retry m' = 1 \<and>
      NextRound (pipelineMetadata m') = 5)"
proof -
  let ?m = "machine_at 2 4 None"
  have i: "iteration ?m = 0" "NextRound (pipelineMetadata ?m) = 4" "retry ?m = 0"
    by (simp_all add: example_defs)
  have h1: "attempts callback_fails_once ?m"
    by (simp add: run_defs example_defs example_envs)
  have h2: "fst (import_process_export callback_fails_once 0 4) = Inr (block 4)"
    by (simp add: run_defs example_defs example_envs)
  have h3: "fst (run_callbacks 0 0 (completeCallback callback_fails_once) (block 4)) = Some (PluginError ''OnComplete'')"
    by (simp add: example_defs example_envs)
  show ?thesis
    using callback_error_moves_on [of callback_fails_once ?m "block 4" "PluginError ''OnComplete''"]
      h1 h2 h3 unfolding i
    by auto
qed

text \<open>
  C1 as stated fails: the callback fails after the export of round 4, the round counts as
  failed (\<open>retry\<close> is 1), and in the retry the importer is asked for round 5 and the
  exporter receives the block of round 5, not round 4 again.
\<close>

theorem callback_error_counterexample:
  "err (machine_of (worker 1 callback_fails_once (machine_at 2 4 None))) = Some (PluginError ''OnComplete'') \<and>
   retry (machine_of (worker 1 callback_fails_once (machine_at 2 4 None))) = 1 \<and>
   map Round (received (new_events (machine_at 2 4 None)
      (machine_of (worker 1 callback_fails_once (machine_at 2 4 None))))) = [4] \<and>
   fetched (new_events (machine_of (worker 1 callback_fails_once (machine_at 2 4 None)))
      (machine_of (worker 2 callback_fails_once (machine_at 2 4 None)))) = [5] \<and>
   map Round (received (new_events (machine_of (worker 1 callback_fails_once (machine_at 2 4 None)))
      (machine_of (worker 2 callback_fails_once (machine_at 2 4 None))))) = [5]"
  by (simp add: run_defs example_defs example_envs worker_numeral)

text \<open>
  C2, as the code has it. \<^verbatim>\<open>time.Sleep\<close> is not interrupted: in a pass that sleeps, a
  context that is cancelled at any time up to the end of the sleep makes the worker return
  when the whole \<^verbatim>\<open>RetryDelay\<close> has passed, after the sleep and before any call of the
  importer.
\<close>

theorem retry_sleep_not_interruptible:
  assumes "0 < retry m" and "retry m \<le> RetryCount (cfg m)"
    and "ctxDone e (now m + RetryDelay (cfg m))"
  shows "\<exists>m'. pipelineRun e m = Return m' \<and> now m' = now m + RetryDelay (cfg m) \<and>
     new_events m m' = [RetryCountObserved (retry m), Slept (RetryDelay (cfg m))]"
proof -
  have na: "\<not> attempts e m" using assms by (simp add: attempts_def)
  have "\<not> retry m > RetryCount (cfg m)" using assms(2) by simp
  then have "pipelineRun e m = Return (machine_of (pipelineRun e m))"
    and "now (machine_of (pipelineRun e m)) = now m + RetryDelay (cfg m)"
    and "new_events m (machine_of (pipelineRun e m)) =
           [RetryCountObserved (retry m), Slept (RetryDelay (cfg m))]"
    using na assms(1) pipelineRun_outcome [of e m] pipelineRun_events [of m e] pipelineRun_now [of e m]
    by simp_all
  then show ?thesis by blast
qed

text \<open>The theorem at the example: cancelled at time 1, the worker returns at time \<open>10\<^sup>9\<close>.\<close>

theorem retry_sleep_not_interruptible_witness:
  "0 < retry ((machine_at 2 3 None)\<lparr>retry := 1\<rparr>) \<and>
   retry ((machine_at 2 3 None)\<lparr>retry := 1\<rparr>) \<le> RetryCount (config 2) \<and>
   ctxDone importer_down_cancelled (0 + 1000000000) \<and>
   (\<exists>m'. pipelineRun importer_down_cancelled ((machine_at 2 3 None)\<lparr>retry := 1\<rparr>) = Return m' \<and>
      now m' = 1000000000 \<and>
      new_events ((machine_at 2 3 None)\<lparr>retry := 1\<rparr>) m' = [RetryCountObserved 1, Slept 1000000000])"
proof -
  let ?m = "(machine_at 2 3 None)\<lparr>retry := 1\<rparr>"
  have i: "retry ?m = 1" "cfg ?m = config 2" "now ?m = 0" "RetryDelay (config 2) = 1000000000"
    by (simp_all add: example_defs)
  have h: "0 < retry ?m" "retry ?m \<le> RetryCount (cfg ?m)"
    "ctxDone importer_down_cancelled (now ?m + RetryDelay (cfg ?m))"
    by (simp_all add: example_defs example_envs)
  show ?thesis
    using retry_sleep_not_interruptible [OF h] h unfolding i by simp
qed

text \<open>
  C2 as stated fails: the importer fails in the first pass at time 0 and the worker goes to
  sleep for \<^verbatim>\<open>RetryDelay\<close>, one second; the context, not cancelled at time 0, is cancelled
  one nanosecond later; the worker is still running after the first pass and returns in the
  second at time \<open>10\<^sup>9\<close>, a whole \<^verbatim>\<open>RetryDelay\<close> less one nanosecond after the
  cancellation.
\<close>

theorem retry_sleep_counterexample:
  "\<not> ctxDone importer_down_cancelled 0 \<and> ctxDone importer_down_cancelled 1 \<and>
   RetryDelay (config 2) = 1000000000 \<and>
   Start 1 importer_down_cancelled (machine_at 2 3 None) =
     Loop (machine_of (Start 1 importer_down_cancelled (machine_at 2 3 None))) \<and>
   now (machine_of (Start 1 importer_down_cancelled (machine_at 2 3 None))) = 0 \<and>
   Start 2 importer_down_cancelled (machine_at 2 3 None) =
     Return (machine_of (Start 2 importer_down_cancelled (machine_at 2 3 None))) \<and>
   now (machine_of (Start 2 importer_down_cancelled (machine_at 2 3 None))) = 1000000000 \<and>
   new_events (machine_of (Start 1 importer_down_cancelled (machine_at 2 3 None)))
     (machine_of (Start 2 importer_down_cancelled (machine_at 2 3 None))) =
     [RetryCountObserved 1, Slept 1000000000]"
  by (simp add: Start_def run_defs example_defs example_envs worker_numeral)

text \<open>
  C3, as the code has it. With a retry budget \<^verbatim>\<open>RetryCount\<close> below \<open>2\<^sup>6\<^sup>4 - 1\<close>, no
  cancellation, and an importer, processor or exporter that fails in every pass with the error
  \<open>x\<close>, the worker returns in pass \<^verbatim>\<open>RetryCount + 2\<close>, having asked the importer for the
  round \<^verbatim>\<open>RetryCount + 1\<close> times; \<^verbatim>\<open>Error()\<close> is \<open>x\<close>, and the files and the
  in-memory metadata are as before.
\<close>

theorem retry_exhaustion:
  assumes "RetryCount (cfg p) \<noteq> - 1"
    and "\<forall>t. \<not> ctxDone e t"
    and "\<forall>n. fst (import_process_export e n (NextRound (pipelineMetadata p))) = Inl x"
  shows "\<exists>m'. Start (unat (RetryCount (cfg p)) + 2) e p = Return m' \<and>
     fetched (new_events p m') = replicate (unat (RetryCount (cfg p)) + 1) (NextRound (pipelineMetadata p)) \<and>
     err m' = Some x \<and> disk m' = disk p \<and> pipelineMetadata m' = pipelineMetadata p"
proof -
  let ?m = "p\<lparr>retry := 0\<rparr>"
  let ?d = "Suc (unat (RetryCount (cfg p)))"
  have tr: "new_events p m' = new_events ?m m'" for m'
    by (simp add: new_events_def)
  have "worker (Suc ?d) e ?m = Return (machine_of (worker (Suc ?d) e ?m)) \<and>
     fetched (new_events ?m (machine_of (worker (Suc ?d) e ?m))) = replicate ?d (NextRound (pipelineMetadata ?m)) \<and>
     err (machine_of (worker (Suc ?d) e ?m)) = (if ?d = 0 then err ?m else Some x) \<and>
     disk (machine_of (worker (Suc ?d) e ?m)) = disk ?m \<and>
     pipelineMetadata (machine_of (worker (Suc ?d) e ?m)) = pipelineMetadata ?m"
    by (rule always_failing_worker [of e ?m x ?d]) (use assms in simp_all)
  then have "Start (unat (RetryCount (cfg p)) + 2) e p = Return (machine_of (worker (Suc ?d) e ?m)) \<and>
     fetched (new_events p (machine_of (worker (Suc ?d) e ?m))) =
       replicate (unat (RetryCount (cfg p)) + 1) (NextRound (pipelineMetadata p)) \<and>
     err (machine_of (worker (Suc ?d) e ?m)) = Some x \<and>
     disk (machine_of (worker (Suc ?d) e ?m)) = disk p \<and>
     pipelineMetadata (machine_of (worker (Suc ?d) e ?m)) = pipelineMetadata p"
    by (simp add: Start_def tr del: worker.simps)
  then show ?thesis by blast
qed

text \<open>
  The theorem at the example: the exporter is down, \<^verbatim>\<open>RetryCount\<close> is 2 and the round is
  3; three attempts at round 3, and the file still says 3.
\<close>

theorem retry_exhaustion_witness:
  "RetryCount (cfg (machine_at 2 3 (Some (Document (Some ''QQ=='') (Some ''testnet'') (Some 3))))) = 2 \<and>
   (\<forall>n. fst (import_process_export exporter_down n 3) = Inl (PluginError ''exporter down'')) \<and>
   (\<exists>m'. Start 4 exporter_down (machine_at 2 3 (Some (Document (Some ''QQ=='') (Some ''testnet'') (Some 3)))) =
       Return m' \<and>
     fetched (new_events (machine_at 2 3 (Some (Document (Some ''QQ=='') (Some ''testnet'') (Some 3)))) m') = [3, 3, 3] \<and>
     err m' = Some (PluginError ''exporter down'') \<and>
     metadata_json (disk m') = Some (Document (Some ''QQ=='') (Some ''testnet'') (Some 3)))"
proof -
  let ?p = "machine_at 2 3 (Some (Document (Some ''QQ=='') (Some ''testnet'') (Some 3)))"
  have h1: "RetryCount (cfg ?p) \<noteq> - 1" "RetryCount (cfg ?p) = 2"
    by (simp_all add: example_defs)
  have h2: "\<forall>t. \<not> ctxDone exporter_down t"
    by (simp add: example_defs example_envs)
  have h3: "\<forall>n. fst (import_process_export exporter_down n (NextRound (pipelineMetadata ?p))) =
      Inl (PluginError ''exporter down'')"
    by (simp add: import_process_export_def example_defs example_envs)
  have i: "NextRound (pipelineMetadata ?p) = 3"
    "metadata_json (disk ?p) = Some (Document (Some ''QQ=='') (Some ''testnet'') (Some 3))"
    "unat (2 :: uint64) + 2 = 4" "replicate (unat (2 :: uint64) + 1) (3 :: uint64) = [3, 3, 3]"
    by (simp_all add: example_defs numeral_3_eq_3)
  show ?thesis
    using retry_exhaustion [OF h1(1) h2 h3] h3 unfolding h1(2) i
    by (auto simp: i)
qed

text \<open>
  C3 as stated, for every \<^verbatim>\<open>RetryCount\<close>, fails at the largest one: no \<^verbatim>\<open>uint64\<close> is
  greater than \<open>2\<^sup>6\<^sup>4 - 1\<close>, so \<^verbatim>\<open>retry > p.cfg.RetryCount\<close> never holds, and with an
  importer that always fails the worker is still running after \<^verbatim>\<open>RetryCount + 2\<close> passes,
  having made as many attempts.
\<close>

theorem retry_exhaustion_counterexample:
  "RetryCount (cfg (machine_at (- 1) 3 None)) = 18446744073709551615 \<and>
   Start (18446744073709551615 + 2) importer_down (machine_at (- 1) 3 None) =
     Loop (machine_of (Start (18446744073709551615 + 2) importer_down (machine_at (- 1) 3 None))) \<and>
   length (fetched (new_events (machine_at (- 1) 3 None)
     (machine_of (Start (18446744073709551615 + 2) importer_down (machine_at (- 1) 3 None))))) =
     18446744073709551615 + 2"
proof -
  let ?m = "(machine_at (- 1) 3 None)\<lparr>retry := 0\<rparr>"
  have c: "RetryCount (cfg ?m) = - 1" "\<forall>t. \<not> ctxDone importer_down t"
    by (simp_all add: example_defs example_envs)
  have tr: "new_events (machine_at (- 1) 3 None) m' = new_events ?m m'" for m'
    by (simp add: new_events_def)
  have "RetryCount (cfg (machine_at (- 1) 3 None)) = 18446744073709551615"
    by (simp add: example_defs)
  then show ?thesis
    using never_returns [OF c, of "18446744073709551615 + 2"]
    by (simp add: Start_def tr del: worker.simps)
qed

text \<open>
  C4, as the code has it. After any number \<open>k\<close> of passes from any state, \<^verbatim>\<open>NextRound\<close>
  has advanced by one for each round the exporter accepted, in \<^verbatim>\<open>uint64\<close> arithmetic. As long
  as it has not wrapped around \<open>2\<^sup>6\<^sup>4\<close>, the values written to \<^verbatim>\<open>metadata.json\<close> are
  strictly increasing, so non-decreasing, and each lies above the starting round by at most
  the number of exported rounds.
\<close>

theorem cursor_monotone:
  "NextRound (pipelineMetadata (machine_of (worker k e m))) =
     NextRound (pipelineMetadata m) +
       of_nat (length (exported (new_events m (machine_of (worker k e m))))) \<and>
   (unat (NextRound (pipelineMetadata m)) +
      length (exported (new_events m (machine_of (worker k e m)))) < 2 ^ 64 \<longrightarrow>
    sorted_wrt (<) (map unat (written (new_events m (machine_of (worker k e m))))) \<and>
    sorted (map unat (written (new_events m (machine_of (worker k e m))))) \<and>
    (\<forall>v \<in> set (written (new_events m (machine_of (worker k e m)))).
       unat (NextRound (pipelineMetadata m)) < unat v \<and>
       unat v \<le> unat (NextRound (pipelineMetadata m)) +
         length (exported (new_events m (machine_of (worker k e m))))))"
proof (intro conjI impI)
  show "NextRound (pipelineMetadata (machine_of (worker k e m))) =
     NextRound (pipelineMetadata m) +
       of_nat (length (exported (new_events m (machine_of (worker k e m)))))"
    by (rule worker_NextRound)
next
  assume a: "unat (NextRound (pipelineMetadata m)) +
      length (exported (new_events m (machine_of (worker k e m)))) < 2 ^ 64"
  note w = worker_written [OF a]
  show "sorted_wrt (<) (map unat (written (new_events m (machine_of (worker k e m)))))"
    using w by blast
  then show "sorted (map unat (written (new_events m (machine_of (worker k e m)))))"
    by (rule strict_sorted_imp_sorted)
  show "\<forall>v \<in> set (written (new_events m (machine_of (worker k e m)))).
       unat (NextRound (pipelineMetadata m)) < unat v \<and>
       unat v \<le> unat (NextRound (pipelineMetadata m)) +
         length (exported (new_events m (machine_of (worker k e m))))"
    using w by blast
qed

text \<open>The theorem at the example: three rounds from round 0 write 1, 2 and 3.\<close>

theorem cursor_monotone_witness:
  "exported (new_events (machine_at 2 0 None) (machine_of (worker 3 good_env (machine_at 2 0 None)))) = [0, 1, 2] \<and>
   NextRound (pipelineMetadata (machine_of (worker 3 good_env (machine_at 2 0 None)))) = 3 \<and>
   written (new_events (machine_at 2 0 None) (machine_of (worker 3 good_env (machine_at 2 0 None)))) = [1, 2, 3] \<and>
   sorted (map unat (written (new_events (machine_at 2 0 None) (machine_of (worker 3 good_env (machine_at 2 0 None))))))"
proof -
  let ?m = "machine_at 2 0 None"
  have h: "exported (new_events ?m (machine_of (worker 3 good_env ?m))) = [0, 1, 2]"
    "written (new_events ?m (machine_of (worker 3 good_env ?m))) = [1, 2, 3]"
    by (simp_all add: run_defs example_defs worker_numeral)
  have i: "NextRound (pipelineMetadata ?m) = 0"
    by (simp add: example_defs)
  show ?thesis
    using cursor_monotone [of 3 good_env ?m] unfolding h i
    by (simp add: h)
qed

text \<open>
  C4 as stated, for any execution, fails when \<^verbatim>\<open>NextRound\<close> wraps: from round
  \<open>2\<^sup>6\<^sup>4 - 2\<close> (which \<^verbatim>\<open>NextRoundOverride\<close> can set) two successful rounds write
  \<open>2\<^sup>6\<^sup>4 - 1\<close> and then 0.
\<close>

theorem cursor_monotone_counterexample:
  "written (new_events (machine_at 2 (- 2) None) (machine_of (Start 2 good_env (machine_at 2 (- 2) None)))) =
     [18446744073709551615, 0] \<and>
   \<not> sorted (map unat (written (new_events (machine_at 2 (- 2) None)
       (machine_of (Start 2 good_env (machine_at 2 (- 2) None))))))"
proof -
  have "written (new_events (machine_at 2 (- 2) None) (machine_of (Start 2 good_env (machine_at 2 (- 2) None)))) =
     [18446744073709551615, 0]"
    by (simp add: Start_def run_defs example_defs worker_numeral)
  then show ?thesis by simp
qed

text \<open>
  C5. When \<^verbatim>\<open>metadata.json\<close> holds a genesis hash other than the one the importer reports,
  \<^verbatim>\<open>Init\<close> returns an error, leaves the files as they are and calls nothing of the round
  loop; unless an earlier call of \<^verbatim>\<open>Init\<close> fails, the error is the mismatch.
\<close>

theorem genesis_mismatch_fails_init:
  assumes "ImporterInit e = Inr g"
    and "metadata_json (disk p) = Some (Document (Some h) nw nr)"
    and "h \<noteq> HashBase64 g"
  shows "fst (Init e p) \<noteq> None \<and> disk (snd (Init e p)) = disk p \<and> trace (snd (Init e p)) = trace p \<and>
     ((CPUProfile (cfg p) = [] \<or> CreateCPUProfile e = None) \<and>
      (PIDFilePath (cfg p) = [] \<or> CreateIndexerPidFile e = None) \<and>
      yaml_Marshal e ImporterPlugin = None \<and> Stat \<notin> init_faults e \<and> ReadFile \<notin> init_faults e \<longrightarrow>
        fst (Init e p) = Some (GenesisMismatch (HashBase64 g) h))"
proof (intro conjI impI)
  show "fst (Init e p) \<noteq> None" "disk (snd (Init e p)) = disk p"
    using assms
    by (auto simp: Init_def Let_def split: option.splits sum.splits prod.splits
        dest: load_existing_keeps_disk load_existing_result)
  show "trace (snd (Init e p)) = trace p" by (rule Init_trace)
  assume "(CPUProfile (cfg p) = [] \<or> CreateCPUProfile e = None) \<and>
      (PIDFilePath (cfg p) = [] \<or> CreateIndexerPidFile e = None) \<and>
      yaml_Marshal e ImporterPlugin = None \<and> Stat \<notin> init_faults e \<and> ReadFile \<notin> init_faults e"
  then show "fst (Init e p) = Some (GenesisMismatch (HashBase64 g) h)"
    using assms by (auto simp: Init_def Let_def load_existing_ok store_fields_def)
qed

text \<open>
  The theorem at the example: the file was written for another genesis hash, with next round
  5; \<^verbatim>\<open>Init\<close> fails with the mismatch and the file still says 5.
\<close>

theorem genesis_mismatch_fails_init_witness:
  "ImporterInit good_env = Inr \<lparr>HashBase64 = ''QQ=='', GenesisNetwork = ''testnet''\<rparr> \<and>
   ''Qg=='' \<noteq> ''QQ=='' \<and>
   fst (Init good_env (machine_at 2 0 (Some (Document (Some ''Qg=='') (Some ''testnet'') (Some 5))))) =
     Some (GenesisMismatch ''QQ=='' ''Qg=='') \<and>
   metadata_json (disk (snd (Init good_env
       (machine_at 2 0 (Some (Document (Some ''Qg=='') (Some ''testnet'') (Some 5))))))) =
     Some (Document (Some ''Qg=='') (Some ''testnet'') (Some 5))"
proof -
  let ?p = "machine_at 2 0 (Some (Document (Some ''Qg=='') (Some ''testnet'') (Some 5)))"
  have h1: "ImporterInit good_env = Inr \<lparr>HashBase64 = ''QQ=='', GenesisNetwork = ''testnet''\<rparr>"
    by (simp add: example_defs)
  have h2: "metadata_json (disk ?p) = Some (Document (Some ''Qg=='') (Some ''testnet'') (Some 5))"
    by (simp add: example_defs)
  have h3: "''Qg=='' \<noteq> HashBase64 \<lparr>HashBase64 = ''QQ=='', GenesisNetwork = ''testnet''\<rparr>"
    by simp
  have h4: "(CPUProfile (cfg ?p) = [] \<or> CreateCPUProfile good_env = None) \<and>
      (PIDFilePath (cfg ?p) = [] \<or> CreateIndexerPidFile good_env = None) \<and>
      yaml_Marshal good_env ImporterPlugin = None \<and> Stat \<notin> init_faults good_env \<and>
      ReadFile \<notin> init_faults good_env"
    by (simp add: example_defs)
  show ?thesis
    using genesis_mismatch_fails_init [OF h1 h2 h3] h1 h2 h4 by simp
qed

text \<open>
  C6. After a pass in which the importer, the processors, the exporter and every completion
  callback succeed, \<^verbatim>\<open>p.err\<close> is nil and \<open>retry\<close> is 0, so the next pass (in any
  environment \<open>e'\<close>) observes the retry count 0 and, if it fails, leaves \<open>retry\<close> at 1.
  A pass that finds the retry budget exceeded returns and leaves \<^verbatim>\<open>p.err\<close> as it was.
\<close>

theorem retry_reset_and_latched_error:
  "(attempts e m \<and>
    fst (import_process_export e (iteration m) (NextRound (pipelineMetadata m))) = Inr blk \<and>
    fst (run_callbacks (iteration m) 0 (completeCallback e) blk) = None \<longrightarrow>
      (\<exists>m'. pipelineRun e m = Loop m' \<and> err m' = None \<and> retry m' = 0 \<and>
         (\<exists>evs. new_events m' (machine_of (pipelineRun e' m')) = RetryCountObserved 0 # evs) \<and>
         (err (machine_of (pipelineRun e' m')) \<noteq> None \<longrightarrow> retry (machine_of (pipelineRun e' m')) = 1))) \<and>
   (retry m > RetryCount (cfg m) \<longrightarrow>
      (\<exists>m'. pipelineRun e m = Return m' \<and> err m' = err m))"
proof (intro conjI impI)
  assume a: "attempts e m \<and>
    fst (import_process_export e (iteration m) (NextRound (pipelineMetadata m))) = Inr blk \<and>
    fst (run_callbacks (iteration m) 0 (completeCallback e) blk) = None"
  define m' where "m' = machine_of (pipelineRun e m)"
  have run: "pipelineRun e m = Loop m'"
    using a pipelineRun_outcome [of e m] by (simp add: m'_def)
  have cleared: "err m' = None" "retry m' = 0"
    using a by (simp_all add: m'_def pipelineRun_err pipelineRun_retry)
  have "\<exists>evs. new_events m' (machine_of (pipelineRun e' m')) = RetryCountObserved 0 # evs"
    using pipelineRun_events [of m' e'] cleared(2) by simp
  moreover have "err (machine_of (pipelineRun e' m')) \<noteq> None \<longrightarrow> retry (machine_of (pipelineRun e' m')) = 1"
    using cleared
    by (auto simp: pipelineRun_err pipelineRun_retry split: sum.splits option.splits if_splits)
  ultimately show "\<exists>m'. pipelineRun e m = Loop m' \<and> err m' = None \<and> retry m' = 0 \<and>
         (\<exists>evs. new_events m' (machine_of (pipelineRun e' m')) = RetryCountObserved 0 # evs) \<and>
         (err (machine_of (pipelineRun e' m')) \<noteq> None \<longrightarrow> retry (machine_of (pipelineRun e' m')) = 1)"
    using run cleared by blast
next
  assume "retry m > RetryCount (cfg m)"
  then have "\<not> attempts e m" by (simp add: attempts_def)
  then have "pipelineRun e m = Return (machine_of (pipelineRun e m))"
    and "err (machine_of (pipelineRun e m)) = err m"
    using pipelineRun_outcome [of e m] by (simp_all add: pipelineRun_err)
  then show "\<exists>m'. pipelineRun e m = Return m' \<and> err m' = err m"
    by blast
qed

text \<open>
  The theorem at the example: a pipeline with a latched error and \<open>retry = 1\<close> makes a
  successful pass, after which the error is nil and \<open>retry\<close> is 0; the next pass, in which
  the exporter fails, observes the retry count 0 and leaves \<open>retry\<close> at 1. A pass with
  \<open>retry = 3 > 2\<close> returns with the latched error.
\<close>

theorem retry_reset_and_latched_error_witness:
  "err ((machine_at 2 3 None)\<lparr>retry := 1, err := Some (PluginError ''down'')\<rparr>) =
     Some (PluginError ''down'') \<and>
   retry ((machine_at 2 3 None)\<lparr>retry := 1, err := Some (PluginError ''down'')\<rparr>) = 1 \<and>
   attempts good_env ((machine_at 2 3 None)\<lparr>retry := 1, err := Some (PluginError ''down'')\<rparr>) \<and>
   fst (import_process_export good_env 0 3) = Inr (block 3) \<and>
   fst (run_callbacks 0 0 (completeCallback good_env) (block 3)) = None \<and>
   (\<exists>m'. pipelineRun good_env ((machine_at 2 3 None)\<lparr>retry := 1, err := Some (PluginError ''down'')\<rparr>) =
       Loop m' \<and> err m' = None \<and> retry m' = 0 \<and>
      (\<exists>evs. new_events m' (machine_of (pipelineRun exporter_down m')) = RetryCountObserved 0 # evs) \<and>
      err (machine_of (pipelineRun exporter_down m')) = Some (PluginError ''exporter down'') \<and>
      retry (machine_of (pipelineRun exporter_down m')) = 1) \<and>
   (\<exists>m'. pipelineRun good_env ((machine_at 2 3 None)\<lparr>retry := 3, err := Some (PluginError ''down'')\<rparr>) =
       Return m' \<and> err m' = Some (PluginError ''down''))"
proof -
  let ?m = "(machine_at 2 3 None)\<lparr>retry := 1, err := Some (PluginError ''down'')\<rparr>"
  let ?m3 = "(machine_at 2 3 None)\<lparr>retry := 3, err := Some (PluginError ''down'')\<rparr>"
  have i: "iteration ?m = 0" "NextRound (pipelineMetadata ?m) = 3"
    "err ?m = Some (PluginError ''down'')" "retry ?m = 1" "err ?m3 = Some (PluginError ''down'')"
    by (simp_all add: example_defs)
  have h: "attempts good_env ?m"
    "fst (import_process_export good_env 0 3) = Inr (block 3)"
    "fst (run_callbacks 0 0 (completeCallback good_env) (block 3)) = None"
    by (simp_all add: run_defs example_defs)
  have h2: "retry ?m3 > RetryCount (cfg ?m3)"
    by (simp add: example_defs)
  have which: "err (machine_of (pipelineRun exporter_down m')) = Some (PluginError ''exporter down'')"
    if "pipelineRun good_env ?m = Loop m'" for m'
  proof -
    have m': "m' = machine_of (pipelineRun good_env ?m)" using that by simp
    show ?thesis
      unfolding m' by (simp add: run_defs example_defs exporter_down_def)
  qed
  show ?thesis
    using retry_reset_and_latched_error [of good_env ?m "block 3" exporter_down]
      retry_reset_and_latched_error [of good_env ?m3 "block 3" exporter_down]
      h h2 which unfolding i
    by (auto simp: i)
qed

text \<open>
  C7. When \<^verbatim>\<open>encodeMetadataToFile\<close> fails after a successful export, the pass goes on:
  the error is logged, the callbacks run after it, \<^verbatim>\<open>NextRound\<close> is incremented,
  \<^verbatim>\<open>metadata.json\<close> is as before, \<^verbatim>\<open>p.err\<close> and \<open>retry\<close> are what the callbacks alone
  make them (nil and 0 when they succeed), and the next pass asks for the next round.
\<close>

theorem flush_failure_not_latched:
  assumes "attempts e m"
    and "fst (import_process_export e (iteration m) (NextRound (pipelineMetadata m))) = Inr blk"
    and "fst (encodeMetadataToFile (faults e (iteration m))
           ((pipelineMetadata m)\<lparr>NextRound := NextRound (pipelineMetadata m) + 1\<rparr>) (disk m)) = Some x"
  shows "\<exists>m'. pipelineRun e m = Loop m' \<and>
     NextRound (pipelineMetadata m') = NextRound (pipelineMetadata m) + 1 \<and>
     metadata_json (disk m') = metadata_json (disk m) \<and>
     (\<exists>evs evs'. new_events m m' =
        evs @ ErrorLogged x # snd (run_callbacks (iteration m) 0 (completeCallback e) blk) @ evs') \<and>
     err m' = fst (run_callbacks (iteration m) 0 (completeCallback e) blk) \<and>
     retry m' = (case fst (run_callbacks (iteration m) 0 (completeCallback e) blk) of
                   None \<Rightarrow> 0 | Some y \<Rightarrow> retry m + 1) \<and>
     (attempts e m' \<longrightarrow>
        fetched (new_events m' (machine_of (pipelineRun e m'))) = [NextRound (pipelineMetadata m) + 1])"
proof -
  define m' where "m' = machine_of (pipelineRun e m)"
  have run: "pipelineRun e m = Loop m'"
    using assms(1) pipelineRun_outcome [of e m] by (simp add: m'_def)
  have exp: "exported (new_events m m') = [NextRound (pipelineMetadata m)]"
    using assms(1,2) by (simp add: m'_def pipelineRun_exported)
  have 1: "NextRound (pipelineMetadata m') = NextRound (pipelineMetadata m) + 1"
    using pipelineRun_NextRound [of e m] exp by (simp add: m'_def)
  have wr: "written (new_events m m') = []"
    using assms by (simp add: m'_def pipelineRun_events split: option.splits)
  have 2: "metadata_json (disk m') = metadata_json (disk m)"
    using pipelineRun_disk [of e m] wr by (simp add: m'_def)
  have "new_events m m' =
      (RetryCountObserved (retry m) # (if retry m > 0 then [Slept (RetryDelay (cfg m))] else []) @
       snd (import_process_export e (iteration m) (NextRound (pipelineMetadata m)))) @
      ErrorLogged x # snd (run_callbacks (iteration m) 0 (completeCallback e) blk) @
      (case fst (run_callbacks (iteration m) 0 (completeCallback e) blk) of
                   Some y \<Rightarrow> [ErrorLogged y]
                 | None \<Rightarrow>
                     ExporterTimeObserved #
                     (if NextRound (pipelineMetadata m) + 1 > 1 then addMetrics blk else []))"
    using assms by (simp add: m'_def pipelineRun_events attempts_def)
  then have 3: "\<exists>evs evs'. new_events m m' =
        evs @ ErrorLogged x # snd (run_callbacks (iteration m) 0 (completeCallback e) blk) @ evs'"
    by blast
  have 4: "err m' = fst (run_callbacks (iteration m) 0 (completeCallback e) blk) \<and>
     retry m' = (case fst (run_callbacks (iteration m) 0 (completeCallback e) blk) of
                   None \<Rightarrow> 0 | Some y \<Rightarrow> retry m + 1)"
    using assms by (simp add: m'_def pipelineRun_err pipelineRun_retry)
  have 5: "attempts e m' \<longrightarrow>
        fetched (new_events m' (machine_of (pipelineRun e m'))) = [NextRound (pipelineMetadata m) + 1]"
    using 1 by (simp add: pipelineRun_fetched)
  show ?thesis using run 1 2 3 4 5 by blast
qed

text \<open>The theorem at the example: \<^verbatim>\<open>os.Rename\<close> fails in the pass for round 3.\<close>

theorem flush_failure_not_latched_witness:
  "attempts rename_fails (machine_at 2 3 None) \<and>
   fst (import_process_export rename_fails 0 3) = Inr (block 3) \<and>
   fst (encodeMetadataToFile {Rename} \<lparr>GenesisHash = ''QQ=='', Network = ''testnet'', NextRound = 4\<rparr>
          \<lparr>metadata_json = None, metadata_json_temp = None\<rparr>) =
     Some (Errorf ''encodeMetadataToFile(): failed to replace metadata file'' (OsError Rename)) \<and>
   (\<exists>m'. pipelineRun rename_fails (machine_at 2 3 None) = Loop m' \<and>
      NextRound (pipelineMetadata m') = 4 \<and> metadata_json (disk m') = None \<and>
      err m' = None \<and> retry m' = 0)"
proof -
  let ?m = "machine_at 2 3 None"
  have i: "iteration ?m = 0" "NextRound (pipelineMetadata ?m) = 3" "disk ?m = \<lparr>metadata_json = None, metadata_json_temp = None\<rparr>"
    "(pipelineMetadata ?m)\<lparr>NextRound := 3 + 1\<rparr> = \<lparr>GenesisHash = ''QQ=='', Network = ''testnet'', NextRound = 4\<rparr>"
    "faults rename_fails 0 = {Rename}" "retry ?m = 0"
    by (simp_all add: example_defs example_envs)
  have h1: "attempts rename_fails ?m"
    by (simp add: run_defs example_defs example_envs)
  have h2: "fst (import_process_export rename_fails 0 3) = Inr (block 3)"
    by (simp add: run_defs example_defs example_envs)
  have h3: "fst (encodeMetadataToFile {Rename} \<lparr>GenesisHash = ''QQ=='', Network = ''testnet'', NextRound = 4\<rparr>
          \<lparr>metadata_json = None, metadata_json_temp = None\<rparr>) =
     Some (Errorf ''encodeMetadataToFile(): failed to replace metadata file'' (OsError Rename))"
    by (simp add: run_defs)
  have h4: "fst (run_callbacks 0 0 (completeCallback rename_fails) (block 3)) = None"
    by (simp add: example_defs example_envs)
  show ?thesis
    using flush_failure_not_latched [of rename_fails ?m "block 3"
        "Errorf ''encodeMetadataToFile(): failed to replace metadata file'' (OsError Rename)"]
      h1 h2 h3 h4 unfolding i
    by auto
qed

text \<open>
  C8, as the code has it. \<^verbatim>\<open>initializeOrLoadBlockMetadata\<close> when the calls it needs
  succeed:
  \<^item> a missing file is written with the JSON of the in-memory record, the record is returned,
    and no \<^verbatim>\<open>os.Remove\<close> is tried;
  \<^item> a file of size zero is removed first and then written likewise: when \<^verbatim>\<open>os.Remove\<close>
    fails the call fails and the file stays, and when the write fails after it the file is gone;
  \<^item> any other file is read and unmarshalled onto the in-memory record: a field that the file
    has replaces the one in memory and a field that it lacks keeps the one in memory, so the
    record on disk is what is returned when the file has all three fields; the file is left as
    it is; rejected bytes give an error.

  What is written is the record as \<^verbatim>\<open>encoding/json\<close> writes it: the strings with every
  byte that is not well-formed UTF-8 replaced, so unchanged when they are ASCII. In \<^verbatim>\<open>Init\<close>
  the in-memory record has the importer's genesis hash and network by then: that is what a
  missing or empty file is written with.
\<close>

theorem metadata_load_policy:
  "(metadata_json d = None \<and> F \<inter> {Stat, Create, Encode, Rename} = {} \<longrightarrow>
      initializeOrLoadBlockMetadata F st d =
        (st, None,
         \<lparr>metadata_json = Some (Document (Some (json_string (GenesisHash st)))
              (Some (json_string (Network st))) (Some (NextRound st))),
          metadata_json_temp = None\<rparr>)) \<and>
   (metadata_json d = Some Zero_length \<and> F \<inter> {Stat, Remove, Create, Encode, Rename} = {} \<longrightarrow>
      initializeOrLoadBlockMetadata F st d =
        (st, None,
         \<lparr>metadata_json = Some (Document (Some (json_string (GenesisHash st)))
              (Some (json_string (Network st))) (Some (NextRound st))),
          metadata_json_temp = None\<rparr>)) \<and>
   (metadata_json d = Some Zero_length \<and> Stat \<notin> F \<and> Remove \<in> F \<longrightarrow>
      initializeOrLoadBlockMetadata F st d =
        (st, Some (Errorf ''Init(): error creating file'' (OsError Remove)), d)) \<and>
   (metadata_json d = Some Zero_length \<and> Stat \<notin> F \<and> Remove \<notin> F \<and> Create \<in> F \<longrightarrow>
      fst (snd (initializeOrLoadBlockMetadata F st d)) \<noteq> None \<and>
      snd (snd (initializeOrLoadBlockMetadata F st d)) = d\<lparr>metadata_json := None\<rparr>) \<and>
   (metadata_json d = Some (Document gh nw nr) \<and> F \<inter> {Stat, ReadFile} = {} \<longrightarrow>
      initializeOrLoadBlockMetadata F st d =
        (\<lparr>GenesisHash = (case gh of None \<Rightarrow> GenesisHash st | Some h \<Rightarrow> h),
          Network = (case nw of None \<Rightarrow> Network st | Some n \<Rightarrow> n),
          NextRound = (case nr of None \<Rightarrow> NextRound st | Some r \<Rightarrow> r)\<rparr>, None, d)) \<and>
   (metadata_json d = Some (Document (Some h) (Some n) (Some r)) \<and> F \<inter> {Stat, ReadFile} = {} \<longrightarrow>
      initializeOrLoadBlockMetadata F st d = (\<lparr>GenesisHash = h, Network = n, NextRound = r\<rparr>, None, d)) \<and>
   (metadata_json d = Some (Malformed gh nw nr) \<and> F \<inter> {Stat, ReadFile} = {} \<longrightarrow>
      fst (snd (initializeOrLoadBlockMetadata F st d)) =
        Some (Errorf ''error reading metadata'' (OsError Unmarshal)) \<and>
      snd (snd (initializeOrLoadBlockMetadata F st d)) = d) \<and>
   ((\<forall>c \<in> set s. (of_char c :: nat) < 128) \<longrightarrow> json_string s = s) \<and>
   (ImporterInit e = Inr g \<and> fst (Init e p) = None \<and>
    (metadata_json (disk p) = None \<or> metadata_json (disk p) = Some Zero_length) \<longrightarrow>
      metadata_json (disk (snd (Init e p))) =
        Some (Document (Some (json_string (HashBase64 g))) (Some (json_string (GenesisNetwork g)))
               (Some (NextRound (pipelineMetadata p)))))"
proof (intro conjI impI)
  assume "metadata_json d = None \<and> F \<inter> {Stat, Create, Encode, Rename} = {}"
  then show "initializeOrLoadBlockMetadata F st d =
        (st, None,
         \<lparr>metadata_json = Some (Document (Some (json_string (GenesisHash st)))
              (Some (json_string (Network st))) (Some (NextRound st))),
          metadata_json_temp = None\<rparr>)"
    by (simp add: initializeOrLoadBlockMetadata_def os_Stat_def encode_ok json_Encode_def Let_def)
next
  assume "metadata_json d = Some Zero_length \<and> F \<inter> {Stat, Remove, Create, Encode, Rename} = {}"
  then show "initializeOrLoadBlockMetadata F st d =
        (st, None,
         \<lparr>metadata_json = Some (Document (Some (json_string (GenesisHash st)))
              (Some (json_string (Network st))) (Some (NextRound st))),
          metadata_json_temp = None\<rparr>)"
    by (simp add: initializeOrLoadBlockMetadata_def os_Stat_def encode_ok json_Encode_def Let_def)
next
  assume "metadata_json d = Some Zero_length \<and> Stat \<notin> F \<and> Remove \<in> F"
  then show "initializeOrLoadBlockMetadata F st d =
        (st, Some (Errorf ''Init(): error creating file'' (OsError Remove)), d)"
    by (simp add: load_remove_fails)
next
  assume a: "metadata_json d = Some Zero_length \<and> Stat \<notin> F \<and> Remove \<notin> F \<and> Create \<in> F"
  then show "fst (snd (initializeOrLoadBlockMetadata F st d)) \<noteq> None"
    by (simp add: load_removed_then_create_fails)
  from a show "snd (snd (initializeOrLoadBlockMetadata F st d)) = d\<lparr>metadata_json := None\<rparr>"
    by (simp add: load_removed_then_create_fails)
next
  assume "metadata_json d = Some (Document gh nw nr) \<and> F \<inter> {Stat, ReadFile} = {}"
  then show "initializeOrLoadBlockMetadata F st d =
        (\<lparr>GenesisHash = (case gh of None \<Rightarrow> GenesisHash st | Some h \<Rightarrow> h),
          Network = (case nw of None \<Rightarrow> Network st | Some n \<Rightarrow> n),
          NextRound = (case nr of None \<Rightarrow> NextRound st | Some r \<Rightarrow> r)\<rparr>, None, d)"
    by (simp add: load_existing_ok store_fields_def)
next
  assume "metadata_json d = Some (Document (Some h) (Some n) (Some r)) \<and> F \<inter> {Stat, ReadFile} = {}"
  then show "initializeOrLoadBlockMetadata F st d = (\<lparr>GenesisHash = h, Network = n, NextRound = r\<rparr>, None, d)"
    by (simp add: load_existing_ok store_fields_def)
next
  assume a: "metadata_json d = Some (Malformed gh nw nr) \<and> F \<inter> {Stat, ReadFile} = {}"
  then show "fst (snd (initializeOrLoadBlockMetadata F st d)) =
        Some (Errorf ''error reading metadata'' (OsError Unmarshal))"
    by (simp add: load_rejected)
  from a show "snd (snd (initializeOrLoadBlockMetadata F st d)) = d"
    by (simp add: load_rejected)
next
  assume "\<forall>c \<in> set s. (of_char c :: nat) < 128"
  then show "json_string s = s" by (rule json_string_ascii)
next
  assume a: "ImporterInit e = Inr g \<and> fst (Init e p) = None \<and>
    (metadata_json (disk p) = None \<or> metadata_json (disk p) = Some Zero_length)"
  then have "Init e p = (None, snd (Init e p))"
    by (metis prod.collapse)
  from Init_success [OF this] a obtain st :: state where
    ld: "initializeOrLoadBlockMetadata (init_faults e)
       ((pipelineMetadata p)\<lparr>GenesisHash := HashBase64 g, Network := GenesisNetwork g\<rparr>) (disk p) =
       (st, None, disk (snd (Init e p)))"
    by auto
  from load_created [OF _ ld] a show "metadata_json (disk (snd (Init e p))) =
        Some (Document (Some (json_string (HashBase64 g))) (Some (json_string (GenesisNetwork g)))
               (Some (NextRound (pipelineMetadata p))))"
    by (simp add: json_Encode_def)
qed

text \<open>
  The theorem at the examples: a missing file (with a failing \<^verbatim>\<open>os.Remove\<close> that is never
  called); an empty file, also with a failing \<^verbatim>\<open>os.Remove\<close> and with a failing
  \<^verbatim>\<open>os.Create\<close>; a file without a network; a file with a record for another network and
  round 7; rejected bytes; \<^verbatim>\<open>Init\<close> with a missing file.
\<close>

theorem metadata_load_policy_witness:
  "initializeOrLoadBlockMetadata {Remove} \<lparr>GenesisHash = ''QQ=='', Network = ''testnet'', NextRound = 0\<rparr>
     \<lparr>metadata_json = None, metadata_json_temp = None\<rparr> =
     (\<lparr>GenesisHash = ''QQ=='', Network = ''testnet'', NextRound = 0\<rparr>, None,
      \<lparr>metadata_json = Some (Document (Some ''QQ=='') (Some ''testnet'') (Some 0)), metadata_json_temp = None\<rparr>) \<and>
   initializeOrLoadBlockMetadata {} \<lparr>GenesisHash = ''QQ=='', Network = ''testnet'', NextRound = 0\<rparr>
     \<lparr>metadata_json = Some Zero_length, metadata_json_temp = None\<rparr> =
     (\<lparr>GenesisHash = ''QQ=='', Network = ''testnet'', NextRound = 0\<rparr>, None,
      \<lparr>metadata_json = Some (Document (Some ''QQ=='') (Some ''testnet'') (Some 0)), metadata_json_temp = None\<rparr>) \<and>
   initializeOrLoadBlockMetadata {Remove} \<lparr>GenesisHash = ''QQ=='', Network = ''testnet'', NextRound = 0\<rparr>
     \<lparr>metadata_json = Some Zero_length, metadata_json_temp = None\<rparr> =
     (\<lparr>GenesisHash = ''QQ=='', Network = ''testnet'', NextRound = 0\<rparr>,
      Some (Errorf ''Init(): error creating file'' (OsError Remove)),
      \<lparr>metadata_json = Some Zero_length, metadata_json_temp = None\<rparr>) \<and>
   snd (snd (initializeOrLoadBlockMetadata {Create} \<lparr>GenesisHash = ''QQ=='', Network = ''testnet'', NextRound = 0\<rparr>
     \<lparr>metadata_json = Some Zero_length, metadata_json_temp = None\<rparr>)) =
     \<lparr>metadata_json = None, metadata_json_temp = None\<rparr> \<and>
   initializeOrLoadBlockMetadata {} \<lparr>GenesisHash = ''QQ=='', Network = ''testnet'', NextRound = 0\<rparr>
     \<lparr>metadata_json = Some (Document (Some ''QQ=='') None (Some 7)), metadata_json_temp = None\<rparr> =
     (\<lparr>GenesisHash = ''QQ=='', Network = ''testnet'', NextRound = 7\<rparr>, None,
      \<lparr>metadata_json = Some (Document (Some ''QQ=='') None (Some 7)), metadata_json_temp = None\<rparr>) \<and>
   initializeOrLoadBlockMetadata {} \<lparr>GenesisHash = ''QQ=='', Network = ''testnet'', NextRound = 0\<rparr>
     \<lparr>metadata_json = Some (Document (Some ''QQ=='') (Some ''mainnet'') (Some 7)), metadata_json_temp = None\<rparr> =
     (\<lparr>GenesisHash = ''QQ=='', Network = ''mainnet'', NextRound = 7\<rparr>, None,
      \<lparr>metadata_json = Some (Document (Some ''QQ=='') (Some ''mainnet'') (Some 7)), metadata_json_temp = None\<rparr>) \<and>
   fst (snd (initializeOrLoadBlockMetadata {} \<lparr>GenesisHash = ''QQ=='', Network = ''testnet'', NextRound = 0\<rparr>
     \<lparr>metadata_json = Some (Malformed None None None), metadata_json_temp = None\<rparr>)) =
     Some (Errorf ''error reading metadata'' (OsError Unmarshal)) \<and>
   json_string ''testnet'' = ''testnet'' \<and>
   fst (Init good_env (machine_at 2 9 None)) = None \<and>
   metadata_json (disk (snd (Init good_env (machine_at 2 9 None)))) =
     Some (Document (Some ''QQ=='') (Some ''testnet'') (Some 9))"
proof -
  let ?st = "\<lparr>GenesisHash = ''QQ=='', Network = ''testnet'', NextRound = 0\<rparr>"
  let ?d = "\<lambda>f. \<lparr>metadata_json = f, metadata_json_temp = None\<rparr>"
  have js: "json_string ''QQ=='' = ''QQ==''" "json_string ''testnet'' = ''testnet''"
    by (simp_all add: Let_def)
  have asc: "\<forall>c \<in> set ''testnet''. (of_char c :: nat) < 128"
    by simp
  have h: "ImporterInit good_env = Inr \<lparr>HashBase64 = ''QQ=='', GenesisNetwork = ''testnet''\<rparr>"
    "fst (Init good_env (machine_at 2 9 None)) = None"
    "metadata_json (disk (machine_at 2 9 None)) = None"
    "NextRound (pipelineMetadata (machine_at 2 9 None)) = 9"
    by (simp_all add: init_defs example_defs)
  note t1 = metadata_load_policy [of "?d None" "{Remove}" ?st]
  note t2 = metadata_load_policy [of "?d (Some Zero_length)" "{}" ?st]
  note t3 = metadata_load_policy [of "?d (Some Zero_length)" "{Remove}" ?st]
  note t4 = metadata_load_policy [of "?d (Some Zero_length)" "{Create}" ?st]
  note t5 = metadata_load_policy [of "?d (Some (Document (Some ''QQ=='') None (Some 7)))" "{}" ?st
      "Some ''QQ==''" None "Some 7"]
  note t6 = metadata_load_policy [of "?d (Some (Document (Some ''QQ=='') (Some ''mainnet'') (Some 7)))" "{}" ?st
      "Some ''QQ==''" "Some ''mainnet''" "Some 7" "''QQ==''" "''mainnet''" 7]
  note t7 = metadata_load_policy [of "?d (Some (Malformed None None None))" "{}" ?st None None None]
  note t8 = metadata_load_policy [of "?d None" "{}" ?st None None None "''QQ==''" "''mainnet''" 7 "''testnet''"
      good_env "\<lparr>HashBase64 = ''QQ=='', GenesisNetwork = ''testnet''\<rparr>" "machine_at 2 9 None"]
  show ?thesis
    using t1 t2 t3 t4 t5 t6 t7 t8 h asc
    by (simp add: js)
qed

text \<open>
  C8 as stated fails. The file holds only \<^verbatim>\<open>next-round\<close>, 7: what is returned is not the
  record on disk but the in-memory genesis hash and network with the round 7, and \<^verbatim>\<open>Init\<close>
  succeeds with it. And with a network that is the single byte FF in memory and no file,
  the file written holds U+FFFD for the network, not the in-memory record.
\<close>

theorem metadata_load_counterexample:
  "initializeOrLoadBlockMetadata {} \<lparr>GenesisHash = ''QQ=='', Network = ''testnet'', NextRound = 0\<rparr>
     \<lparr>metadata_json = Some (Document None None (Some 7)), metadata_json_temp = None\<rparr> =
     (\<lparr>GenesisHash = ''QQ=='', Network = ''testnet'', NextRound = 7\<rparr>, None,
      \<lparr>metadata_json = Some (Document None None (Some 7)), metadata_json_temp = None\<rparr>) \<and>
   Init good_env (machine_at 2 0 (Some (Document None None (Some 7)))) =
     (None, machine_at 2 7 (Some (Document None None (Some 7)))) \<and>
   initializeOrLoadBlockMetadata {} \<lparr>GenesisHash = ''QQ=='', Network = [CHR 0xFF], NextRound = 0\<rparr>
     \<lparr>metadata_json = None, metadata_json_temp = None\<rparr> =
     (\<lparr>GenesisHash = ''QQ=='', Network = [CHR 0xFF], NextRound = 0\<rparr>, None,
      \<lparr>metadata_json = Some (Document (Some ''QQ=='') (Some [CHR 0xEF, CHR 0xBF, CHR 0xBD]) (Some 0)),
       metadata_json_temp = None\<rparr>)"
  by (simp add: init_defs example_defs)

text \<open>
  C9, as the code has it. Every pass observes the retry count first. Each stage timing is
  observed exactly when its own stage has succeeded: the importer time in the passes whose
  \<^verbatim>\<open>GetBlock\<close> succeeds, whatever fails later; the time of processor \<open>i\<close> in the passes
  in which the processors before it have passed the block on and its own \<^verbatim>\<open>Process\<close>
  succeeds, so not for a processor that fails; the exporter time in the passes in which the
  export and all callbacks succeed. A pass whose \<^verbatim>\<open>GetBlock\<close> fails observes no stage
  timing.
\<close>

theorem stage_timing_observations:
  "(\<exists>evs. new_events m (machine_of (pipelineRun e m)) = RetryCountObserved (retry m) # evs) \<and>
   (ExporterTimeObserved \<in> set (new_events m (machine_of (pipelineRun e m))) \<longleftrightarrow>
      attempts e m \<and>
      (\<exists>blk. fst (import_process_export e (iteration m) (NextRound (pipelineMetadata m))) = Inr blk \<and>
             fst (run_callbacks (iteration m) 0 (completeCallback e) blk) = None)) \<and>
   (ImporterTimeObserved \<in> set (new_events m (machine_of (pipelineRun e m))) \<longleftrightarrow>
      attempts e m \<and> (\<exists>b. GetBlock e (iteration m) (NextRound (pipelineMetadata m)) = Inr b)) \<and>
   (ProcessorTimeObserved i \<in> set (new_events m (machine_of (pipelineRun e m))) \<longleftrightarrow>
      attempts e m \<and> i < length (processors e) \<and>
      (\<exists>b b' b''. GetBlock e (iteration m) (NextRound (pipelineMetadata m)) = Inr b \<and>
         fst (run_processors (iteration m) 0 (take i (processors e)) b) = Inr b' \<and>
         (processors e ! i) (iteration m) b' = Inr b'')) \<and>
   ((\<exists>x. GetBlock e (iteration m) (NextRound (pipelineMetadata m)) = Inl x) \<longrightarrow>
      filter is_stage_timing (new_events m (machine_of (pipelineRun e m))) = [])"
proof (intro conjI)
  show "\<exists>evs. new_events m (machine_of (pipelineRun e m)) = RetryCountObserved (retry m) # evs"
    using pipelineRun_events [of m e] by blast
  show "ExporterTimeObserved \<in> set (new_events m (machine_of (pipelineRun e m))) \<longleftrightarrow>
      attempts e m \<and>
      (\<exists>blk. fst (import_process_export e (iteration m) (NextRound (pipelineMetadata m))) = Inr blk \<and>
             fst (run_callbacks (iteration m) 0 (completeCallback e) blk) = None)"
    by (auto simp: pipelineRun_events attempts_def split: sum.splits option.splits)
  show "ImporterTimeObserved \<in> set (new_events m (machine_of (pipelineRun e m))) \<longleftrightarrow>
      attempts e m \<and> (\<exists>b. GetBlock e (iteration m) (NextRound (pipelineMetadata m)) = Inr b)"
    by (auto simp: pipelineRun_events attempts_def ipe_importer_time split: sum.splits option.splits)
  have "ProcessorTimeObserved i \<in> set (new_events m (machine_of (pipelineRun e m))) \<longleftrightarrow>
      attempts e m \<and>
      ProcessorTimeObserved i \<in> set (snd (import_process_export e (iteration m) (NextRound (pipelineMetadata m))))"
    by (auto simp: pipelineRun_events attempts_def split: sum.splits option.splits if_splits)
  then show "ProcessorTimeObserved i \<in> set (new_events m (machine_of (pipelineRun e m))) \<longleftrightarrow>
      attempts e m \<and> i < length (processors e) \<and>
      (\<exists>b b' b''. GetBlock e (iteration m) (NextRound (pipelineMetadata m)) = Inr b \<and>
         fst (run_processors (iteration m) 0 (take i (processors e)) b) = Inr b' \<and>
         (processors e ! i) (iteration m) b' = Inr b'')"
    by (auto simp: ipe_processor_time_iff run_processors_time)
  show "(\<exists>x. GetBlock e (iteration m) (NextRound (pipelineMetadata m)) = Inl x) \<longrightarrow>
      filter is_stage_timing (new_events m (machine_of (pipelineRun e m))) = []"
    by (auto simp: pipelineRun_events ipe_importer_failed)
qed

text \<open>
  The theorem at the examples: no stage timing when the importer fails; when the second of
  two processors fails, the importer time and the time of processor 0 are observed, the time
  of processor 1 and the exporter time are not.
\<close>

theorem stage_timing_observations_witness:
  "GetBlock importer_down 0 3 = Inl (PluginError ''no block'') \<and>
   filter is_stage_timing (new_events (machine_at 2 3 None)
      (machine_of (pipelineRun importer_down (machine_at 2 3 None)))) = [] \<and>
   GetBlock second_processor_fails 0 3 = Inr (block 3) \<and>
   (processors second_processor_fails ! 0) 0 (block 3) = Inr (block 3) \<and>
   (processors second_processor_fails ! 1) 0 (block 3) = Inl (PluginError ''bad block'') \<and>
   ImporterTimeObserved \<in> set (new_events (machine_at 2 3 None)
      (machine_of (pipelineRun second_processor_fails (machine_at 2 3 None)))) \<and>
   ProcessorTimeObserved 0 \<in> set (new_events (machine_at 2 3 None)
      (machine_of (pipelineRun second_processor_fails (machine_at 2 3 None)))) \<and>
   ProcessorTimeObserved 1 \<notin> set (new_events (machine_at 2 3 None)
      (machine_of (pipelineRun second_processor_fails (machine_at 2 3 None)))) \<and>
   ExporterTimeObserved \<notin> set (new_events (machine_at 2 3 None)
      (machine_of (pipelineRun second_processor_fails (machine_at 2 3 None))))"
proof -
  let ?m = "machine_at 2 3 None"
  let ?e = second_processor_fails
  have i: "iteration ?m = 0" "NextRound (pipelineMetadata ?m) = 3"
    by (simp_all add: example_defs)
  have h1: "GetBlock importer_down 0 3 = Inl (PluginError ''no block'')"
    by (simp add: example_defs importer_down_def)
  have h2: "attempts ?e ?m" "length (processors ?e) = 2" "GetBlock ?e 0 3 = Inr (block 3)"
    "(processors ?e ! 0) 0 (block 3) = Inr (block 3)"
    "(processors ?e ! 1) 0 (block 3) = Inl (PluginError ''bad block'')"
    "fst (run_processors 0 0 (take 0 (processors ?e)) (block 3)) = Inr (block 3)"
    "fst (run_processors 0 0 (take 1 (processors ?e)) (block 3)) = Inr (block 3)"
    "fst (import_process_export ?e 0 3) = Inl (PluginError ''bad block'')"
    by (simp_all add: example_defs second_processor_fails_def attempts_def import_process_export_def)
  show ?thesis
    using stage_timing_observations [of ?m importer_down 0] stage_timing_observations [of ?m ?e 0]
      stage_timing_observations [of ?m ?e 1] h1 h2 unfolding i
    by auto
qed

text \<open>
  C9 as stated fails: a pass in which the exporter fails is a failed attempt (the error is
  latched, \<open>retry\<close> is 1), and it has observed the importer time and the time of
  processor 0.
\<close>

theorem stage_timing_counterexample:
  "err (machine_of (pipelineRun exporter_down (machine_at 2 3 None))) = Some (PluginError ''exporter down'') \<and>
   retry (machine_of (pipelineRun exporter_down (machine_at 2 3 None))) = 1 \<and>
   filter is_stage_timing (new_events (machine_at 2 3 None)
      (machine_of (pipelineRun exporter_down (machine_at 2 3 None)))) =
     [ImporterTimeObserved, ProcessorTimeObserved 0]"
  by (simp add: run_defs example_defs example_envs)

text \<open>
  C10. When \<^verbatim>\<open>Init\<close> succeeds with \<^verbatim>\<open>NextRoundOverride > 0\<close>, the in-memory
  \<^verbatim>\<open>NextRound\<close> is the override, while the files are what loading the metadata left:
  untouched when \<^verbatim>\<open>metadata.json\<close> held a record, otherwise written with the
  \<^verbatim>\<open>NextRound\<close> the pipeline had before the override (and with the genesis hash and the
  network as \<^verbatim>\<open>encoding/json\<close> writes them). In the round loop (in any
  environment \<open>e'\<close>) \<^verbatim>\<open>metadata.json\<close> stays so as long as no flush has succeeded, and
  what the first pass writes, if anything, is the override plus one.
\<close>

theorem override_stays_in_memory:
  assumes "Init e p = (None, p')" and "0 < NextRoundOverride (cfg p)"
  shows "NextRound (pipelineMetadata p') = NextRoundOverride (cfg p) \<and>
     (case metadata_json (disk p) of
        Some (Document gh nw nr) \<Rightarrow> disk p' = disk p
      | _ \<Rightarrow> metadata_json (disk p') =
              Some (Document (Some (json_string (GenesisHash (pipelineMetadata p'))))
                     (Some (json_string (Network (pipelineMetadata p'))))
                     (Some (NextRound (pipelineMetadata p))))) \<and>
     (\<forall>k. written (new_events p' (machine_of (Start k e' p'))) = [] \<longrightarrow>
          metadata_json (disk (machine_of (Start k e' p'))) = metadata_json (disk p')) \<and>
     (written (new_events p' (machine_of (Start 1 e' p'))) = [] \<or>
      written (new_events p' (machine_of (Start 1 e' p'))) = [NextRoundOverride (cfg p) + 1])"
proof -
  from Init_success [OF assms(1)] obtain g :: Genesis and st :: state where
    ld: "initializeOrLoadBlockMetadata (init_faults e)
       ((pipelineMetadata p)\<lparr>GenesisHash := HashBase64 g, Network := GenesisNetwork g\<rparr>) (disk p) =
       (st, None, disk p')"
    and gh: "GenesisHash st = HashBase64 g"
    and pm: "pipelineMetadata p' =
       (if NextRoundOverride (cfg p) > 0 then st\<lparr>NextRound := NextRoundOverride (cfg p)\<rparr> else st)"
    by (elim exE conjE)
  have 1: "NextRound (pipelineMetadata p') = NextRoundOverride (cfg p)"
    using pm assms(2) by simp
  have 2: "(case metadata_json (disk p) of
        Some (Document gh nw nr) \<Rightarrow> disk p' = disk p
      | _ \<Rightarrow> metadata_json (disk p') =
              Some (Document (Some (json_string (GenesisHash (pipelineMetadata p'))))
                     (Some (json_string (Network (pipelineMetadata p'))))
                     (Some (NextRound (pipelineMetadata p)))))"
  proof (cases "metadata_json (disk p)")
    case None
    from load_created [OF _ ld] None show ?thesis
      using pm assms(2) by (auto simp: json_Encode_def)
  next
    case (Some f)
    show ?thesis
    proof (cases f)
      case Zero_length
      from load_created [OF _ ld] Some Zero_length show ?thesis
        using pm assms(2) by (auto simp: json_Encode_def)
    next
      case (Malformed gh nw nr)
      from load_malformed [OF _ ld] Some Malformed show ?thesis by simp
    next
      case (Document gh nw nr)
      from load_existing_keeps_disk [OF _ ld] Some Document show ?thesis by simp
    qed
  qed
  have tr: "new_events p' m' = new_events (p'\<lparr>retry := 0\<rparr>) m'" for m'
    by (simp add: new_events_def)
  have 3: "\<forall>k. written (new_events p' (machine_of (Start k e' p'))) = [] \<longrightarrow>
          metadata_json (disk (machine_of (Start k e' p'))) = metadata_json (disk p')"
    using worker_disk [of _ e' "p'\<lparr>retry := 0\<rparr>"] by (simp add: Start_def tr)
  have "machine_of (Start 1 e' p') = machine_of (pipelineRun e' (p'\<lparr>retry := 0\<rparr>))"
    unfolding Start_def One_nat_def worker_Suc_machine by simp
  then have 4: "written (new_events p' (machine_of (Start 1 e' p'))) = [] \<or>
      written (new_events p' (machine_of (Start 1 e' p'))) = [NextRoundOverride (cfg p) + 1]"
    using pipelineRun_written [of "p'\<lparr>retry := 0\<rparr>" e'] 1 by (auto simp: tr)
  show ?thesis using 1 2 3 4 by blast
qed

text \<open>
  The theorem at the example: the file says next round 100 and the override is 50; after
  \<^verbatim>\<open>Init\<close> the pipeline is at round 50 and the file still says 100; the first pass
  writes 51.
\<close>

theorem override_stays_in_memory_witness:
  "Init good_env ((machine_at 2 0 (Some (Document (Some ''QQ=='') (Some ''testnet'') (Some 100))))
       \<lparr>cfg := (config 2)\<lparr>NextRoundOverride := 50\<rparr>\<rparr>) =
     (None, (machine_at 2 50 (Some (Document (Some ''QQ=='') (Some ''testnet'') (Some 100))))
       \<lparr>cfg := (config 2)\<lparr>NextRoundOverride := 50\<rparr>\<rparr>) \<and>
   written (new_events ((machine_at 2 50 (Some (Document (Some ''QQ=='') (Some ''testnet'') (Some 100))))
       \<lparr>cfg := (config 2)\<lparr>NextRoundOverride := 50\<rparr>\<rparr>)
     (machine_of (Start 0 good_env ((machine_at 2 50 (Some (Document (Some ''QQ=='') (Some ''testnet'') (Some 100))))
       \<lparr>cfg := (config 2)\<lparr>NextRoundOverride := 50\<rparr>\<rparr>)))) = [] \<and>
   metadata_json (disk (machine_of (Start 0 good_env ((machine_at 2 50 (Some (Document (Some ''QQ=='') (Some ''testnet'') (Some 100))))
       \<lparr>cfg := (config 2)\<lparr>NextRoundOverride := 50\<rparr>\<rparr>)))) =
     Some (Document (Some ''QQ=='') (Some ''testnet'') (Some 100)) \<and>
   written (new_events ((machine_at 2 50 (Some (Document (Some ''QQ=='') (Some ''testnet'') (Some 100))))
       \<lparr>cfg := (config 2)\<lparr>NextRoundOverride := 50\<rparr>\<rparr>)
     (machine_of (Start 1 good_env ((machine_at 2 50 (Some (Document (Some ''QQ=='') (Some ''testnet'') (Some 100))))
       \<lparr>cfg := (config 2)\<lparr>NextRoundOverride := 50\<rparr>\<rparr>)))) = [51]"
proof -
  let ?f = "Some (Document (Some ''QQ=='') (Some ''testnet'') (Some 100))"
  let ?p = "(machine_at 2 0 ?f)\<lparr>cfg := (config 2)\<lparr>NextRoundOverride := 50\<rparr>\<rparr>"
  let ?p' = "(machine_at 2 50 ?f)\<lparr>cfg := (config 2)\<lparr>NextRoundOverride := 50\<rparr>\<rparr>"
  have h1: "Init good_env ?p = (None, ?p')"
    by (simp add: init_defs example_defs)
  have h2: "0 < NextRoundOverride (cfg ?p)"
    by (simp add: example_defs)
  have h3: "written (new_events ?p' (machine_of (Start 0 good_env ?p'))) = []"
    by (simp add: Start_def new_events_def)
  have h4: "written (new_events ?p' (machine_of (Start 1 good_env ?p'))) \<noteq> []"
    by (simp add: Start_def run_defs example_defs)
  have i: "metadata_json (disk ?p') = ?f" "NextRoundOverride (cfg ?p) + 1 = 51"
    by (simp_all add: example_defs)
  show ?thesis
    using override_stays_in_memory [OF h1 h2, of good_env] h1 h3 h4 unfolding i
    by auto
qed

end
